theory Spec2Isabelle
  imports Main "HOL-Library.AList"
begin

section \<open>Error codes (codes.go)\<close>

text \<open>
  \<^verbatim>\<open>type Code int\<close>: a code is any machine integer; the sixteen named constants start at
  \<open>iota + 1\<close>, so the zero value of the type is none of them.
\<close>

type_synonym Code = int

definition CodeCanceled :: Code where "CodeCanceled = 1"
definition CodeUnknown :: Code where "CodeUnknown = 2"
definition CodeInvalidArgument :: Code where "CodeInvalidArgument = 3"
definition CodeDeadlineExceeded :: Code where "CodeDeadlineExceeded = 4"
definition CodeNotFound :: Code where "CodeNotFound = 5"
definition CodeAlreadyExists :: Code where "CodeAlreadyExists = 6"
definition CodePermissionDenied :: Code where "CodePermissionDenied = 7"
definition CodeResourceExhausted :: Code where "CodeResourceExhausted = 8"
definition CodeFailedPrecondition :: Code where "CodeFailedPrecondition = 9"
definition CodeAborted :: Code where "CodeAborted = 10"
definition CodeOutOfRange :: Code where "CodeOutOfRange = 11"
definition CodeUnimplemented :: Code where "CodeUnimplemented = 12"
definition CodeInternal :: Code where "CodeInternal = 13"
definition CodeUnavailable :: Code where "CodeUnavailable = 14"
definition CodeDataLoss :: Code where "CodeDataLoss = 15"
definition CodeUnauthenticated :: Code where "CodeUnauthenticated = 16"

definition DEFAULT_ERROR_CODE_NEW :: Code where "DEFAULT_ERROR_CODE_NEW = CodeUnknown"
definition DEFAULT_ERROR_CODE_WRAP :: Code where "DEFAULT_ERROR_CODE_WRAP = CodeInternal"
definition DEFAULT_UNKNOWN_CODE :: Code where "DEFAULT_UNKNOWN_CODE = CodeUnknown"

lemmas code_defs =
  CodeCanceled_def CodeUnknown_def CodeInvalidArgument_def CodeDeadlineExceeded_def
  CodeNotFound_def CodeAlreadyExists_def CodePermissionDenied_def CodeResourceExhausted_def
  CodeFailedPrecondition_def CodeAborted_def CodeOutOfRange_def CodeUnimplemented_def
  CodeInternal_def CodeUnavailable_def CodeDataLoss_def CodeUnauthenticated_def
  DEFAULT_ERROR_CODE_NEW_def DEFAULT_ERROR_CODE_WRAP_def DEFAULT_UNKNOWN_CODE_def

text \<open>The table \<^verbatim>\<open>defaultErrorCodes\<close> as a lookup; a missing key is \<open>None\<close>.\<close>

definition defaultErrorCodes :: "Code \<Rightarrow> string option" where
  "defaultErrorCodes c =
     (if c = CodeAborted then Some ''aborted''
      else if c = CodeAlreadyExists then Some ''already exists''
      else if c = CodeCanceled then Some ''canceled''
      else if c = CodeDataLoss then Some ''data loss''
      else if c = CodeDeadlineExceeded then Some ''deadline exceeded''
      else if c = CodeFailedPrecondition then Some ''failed precondition''
      else if c = CodeInternal then Some ''internal''
      else if c = CodeInvalidArgument then Some ''invalid argument''
      else if c = CodeNotFound then Some ''not found''
      else if c = CodeOutOfRange then Some ''out of range''
      else if c = CodePermissionDenied then Some ''permission denied''
      else if c = CodeResourceExhausted then Some ''resource exhausted''
      else if c = CodeUnauthenticated then Some ''unauthenticated''
      else if c = CodeUnavailable then Some ''unavailable''
      else if c = CodeUnknown then Some ''unknown''
      else if c = CodeUnimplemented then Some ''unimplemented''
      else None)"

text \<open>\<^verbatim>\<open>func (c Code) String() string\<close>: the label, or the label of the default code.\<close>

definition Code_String :: "Code \<Rightarrow> string" where
  "Code_String c =
     (case defaultErrorCodes c of
        Some s \<Rightarrow> s
      | None \<Rightarrow> the (defaultErrorCodes DEFAULT_ERROR_CODE_NEW))"

section \<open>Values, nodes and the store (eris.go)\<close>

type_synonym pc = nat
type_synonym addr = nat

text \<open>
  The values a property or a \<^verbatim>\<open>Field\<close> can carry (\<^verbatim>\<open>any\<close>): nil, and the strings,
  integers, booleans and codes that the package and its tests store.
\<close>

datatype any = AnyNil | AnyString string | AnyInt int | AnyBool bool | AnyCode Code

text \<open>
  \<^verbatim>\<open>map[string]any\<close>: \<open>None\<close> is the nil map, \<open>Some kvs\<close> an allocated map read
  through \<open>map_of\<close> (the first binding of a key is its value).
\<close>

type_synonym kvmap = "(string \<times> any) list option"

text \<open>
  A foreign error value, as far as this package can observe it: its identity and whether
  its dynamic type is comparable (for \<^verbatim>\<open>==\<close>), the text of \<^verbatim>\<open>Error()\<close>, and the optional
  \<^verbatim>\<open>Code()\<close> and \<^verbatim>\<open>KVs()\<close> methods (\<open>None\<close>: the type has no such method).
\<close>

record foreign =
  f_ident :: nat
  f_comparable :: bool
  f_text :: string
  f_code :: "Code option"
  f_kvs :: "kvmap option"

text \<open>
  The \<^verbatim>\<open>error\<close> interface. \<open>ERoot\<close> is a \<^verbatim>\<open>*rootError\<close>, \<open>EWrap\<close> a \<^verbatim>\<open>*wrapError\<close>; both
  carry the address of their cell, which is what \<^verbatim>\<open>==\<close> compares. The fields \<^verbatim>\<open>ext\<close> and
  \<^verbatim>\<open>err\<close> are assigned once, when the node is allocated, to a value that exists already, so
  a chain is a finite tree and is kept as one. The \<^verbatim>\<open>*stack\<close> of a root is the one object
  that \<^verbatim>\<open>wrap\<close> mutates through every node above it: it lives in the store, and the root
  holds its address. \<open>EForeign f u\<close> is a foreign value; \<open>u\<close> is the result of its
  \<^verbatim>\<open>Unwrap() error\<close> method when it has one. \<open>EJoin a es\<close> is the aggregate that
  \<^verbatim>\<open>errors.Join\<close> allocates (a pointer; its method is \<^verbatim>\<open>Unwrap() []error\<close>).
\<close>

datatype err =
    ENil
  | ERoot (r_id: addr) (r_global: bool) (r_msg: string) (r_ext: err) (r_stack: addr)
      (r_code: Code) (r_kvs: kvmap)
  | EWrap (w_id: addr) (w_msg: string) (w_err: err) (w_frame: pc) (w_code: Code) (w_kvs: kvmap)
  | EForeign foreign "err option"
  | EJoin addr "err list"

record state =
  stacks :: "addr \<Rightarrow> pc list"
  fresh :: addr

text \<open>
  What the runtime hands to one call of \<^verbatim>\<open>New\<close> or \<^verbatim>\<open>wrap\<close>: the program counters
  that \<^verbatim>\<open>callers(skip)\<close> records there (most recent call first) and the one that
  \<^verbatim>\<open>caller(skip)\<close> records.
\<close>

record callsite =
  cs_stack :: "pc list"
  cs_frame :: pc

text \<open>
  Modelled from the spec: \<^verbatim>\<open>stack.insertPC\<close> is not among the sources. The spec has
  "\<^verbatim>\<open>insert(stack, frame)\<close> prepends a frame to an existing Stack" and "frames inserted at the
  head"; \<^verbatim>\<open>wrap\<close> passes the whole fresh capture, whose first entry is the call site.
\<close>

fun insertPC :: "pc list \<Rightarrow> pc list \<Rightarrow> pc list" where
  "insertPC s [] = s"
| "insertPC s (p # wrapPCs) = p # s"

text \<open>
  \<^verbatim>\<open>New\<close>. The flag \<^verbatim>\<open>global\<close> is \<^verbatim>\<open>stack.isGlobal()\<close>, which is not among the sources
  (the spec calls it a best-effort, platform-specific heuristic): it is the parameter
  \<open>isGlobal\<close>. The new root and its stack take the next two free addresses.
\<close>

definition New :: "(pc list \<Rightarrow> bool) \<Rightarrow> callsite \<Rightarrow> state \<Rightarrow> string \<Rightarrow> err \<times> state" where
  "New isGlobal cs s msg =
     (let a = fresh s; sp = Suc a
      in (ERoot a (isGlobal (cs_stack cs)) msg ENil sp DEFAULT_ERROR_CODE_NEW None,
          s\<lparr>stacks := (stacks s)(sp := cs_stack cs), fresh := Suc sp\<rparr>))"

text \<open>\<^verbatim>\<open>Errorf\<close>: \<open>msg\<close> is the text that \<^verbatim>\<open>fmt.Sprintf\<close> has made of the format.\<close>

definition Errorf :: "(pc list \<Rightarrow> bool) \<Rightarrow> callsite \<Rightarrow> state \<Rightarrow> string \<Rightarrow> err \<times> state" where
  "Errorf isGlobal cs s msg =
     (let a = fresh s; sp = Suc a
      in (ERoot a (isGlobal (cs_stack cs)) msg ENil sp DEFAULT_ERROR_CODE_NEW None,
          s\<lparr>stacks := (stacks s)(sp := cs_stack cs), fresh := Suc sp\<rparr>))"

text \<open>
  \<^verbatim>\<open>Unwrap\<close>: the type assertion to \<^verbatim>\<open>interface{ Unwrap() error }\<close> holds for both node
  types and for a foreign value with that method.
\<close>

fun Unwrap :: "err \<Rightarrow> err" where
  "Unwrap (ERoot a g m x sp c k) = x"
| "Unwrap (EWrap a m e f c k) = e"
| "Unwrap (EForeign f (Some e)) = e"
| "Unwrap (EForeign f None) = ENil"
| "Unwrap (EJoin a es) = ENil"
| "Unwrap ENil = ENil"

lemma Unwrap_size: "Unwrap e \<noteq> ENil \<Longrightarrow> size (Unwrap e) < size e"
  by (induction e rule: Unwrap.induct) simp_all

function Cause :: "err \<Rightarrow> err" where
  "Cause e = (let uerr = Unwrap e in if uerr = ENil then e else Cause uerr)"
  by pat_completeness auto
termination
  by (relation "measure size") (simp_all add: Unwrap_size)

declare Cause.simps [simp del]

text \<open>
  \<^verbatim>\<open>wrap\<close>. The three cases of the type switch; a new cell takes the next free address.
\<close>

definition wrap :: "callsite \<Rightarrow> state \<Rightarrow> err \<Rightarrow> string \<Rightarrow> Code \<Rightarrow> err \<times> state" where
  "wrap cs s e msg code =
     (case e of
        ENil \<Rightarrow> (ENil, s)
      | ERoot a g m x sp c k \<Rightarrow>
          if g then
            (let a' = fresh s; sp' = Suc a'; l = Suc sp'
             in (EWrap l msg (ERoot a' g m ENil sp' c None) (cs_frame cs) code None,
                 s\<lparr>stacks := (stacks s)(sp' := cs_stack cs), fresh := Suc l\<rparr>))
          else
            (EWrap (fresh s) msg e (cs_frame cs) code None,
             s\<lparr>stacks := (stacks s)(sp := insertPC (stacks s sp) (cs_stack cs)),
               fresh := Suc (fresh s)\<rparr>)
      | EWrap a m e' f c k \<Rightarrow>
          (EWrap (fresh s) msg e (cs_frame cs) code None,
           (case Cause e of
              ERoot a' g' m' x' sp' c' k' \<Rightarrow>
                s\<lparr>stacks := (stacks s)(sp' := insertPC (stacks s sp') (cs_stack cs)),
                  fresh := Suc (fresh s)\<rparr>
            | _ \<Rightarrow> s\<lparr>fresh := Suc (fresh s)\<rparr>))
      | _ \<Rightarrow>
          (let a' = fresh s; sp' = Suc a'
           in (ERoot a' False msg e sp' code None,
               s\<lparr>stacks := (stacks s)(sp' := cs_stack cs), fresh := Suc sp'\<rparr>)))"

definition Wrap :: "callsite \<Rightarrow> state \<Rightarrow> err \<Rightarrow> string \<Rightarrow> err \<times> state" where
  "Wrap cs s e msg = wrap cs s e msg DEFAULT_ERROR_CODE_WRAP"

text \<open>
  \<^verbatim>\<open>StackFrames\<close>: the stack of a root, the one frame of a link (\<^verbatim>\<open>frame.pc\<close> is not among
  the sources; the spec has "one-element sequence holding its Frame"), nothing otherwise.
\<close>

fun StackFrames :: "state \<Rightarrow> err \<Rightarrow> pc list" where
  "StackFrames s (ERoot a g m x sp c k) = stacks s sp"
| "StackFrames s (EWrap a m e f c k) = [f]"
| "StackFrames s _ = []"

section \<open>Codes and properties of an error (eris.go)\<close>

text \<open>
  \<^verbatim>\<open>GetCode\<close> and \<^verbatim>\<open>GetKVs\<close> probe the value for a \<^verbatim>\<open>Code()\<close> and a \<^verbatim>\<open>KVs()\<close> method.
  The \<^verbatim>\<open>KVs()\<close> of a node returns a new empty map when the field is nil.
\<close>

fun GetCode :: "err \<Rightarrow> Code" where
  "GetCode (ERoot a g m x sp c k) = c"
| "GetCode (EWrap a m e f c k) = c"
| "GetCode (EForeign f u) = (case f_code f of Some c \<Rightarrow> c | None \<Rightarrow> DEFAULT_UNKNOWN_CODE)"
| "GetCode _ = DEFAULT_UNKNOWN_CODE"

fun GetKVs :: "err \<Rightarrow> kvmap" where
  "GetKVs (ERoot a g m x sp c k) = (case k of None \<Rightarrow> Some [] | Some kvs \<Rightarrow> Some kvs)"
| "GetKVs (EWrap a m e f c k) = (case k of None \<Rightarrow> Some [] | Some kvs \<Rightarrow> Some kvs)"
| "GetKVs (EForeign f u) = (case f_kvs f of Some k \<Rightarrow> k | None \<Rightarrow> None)"
| "GetKVs _ = None"

text \<open>Reading a key: a nil map has no keys.\<close>

definition kv_lookup :: "kvmap \<Rightarrow> string \<Rightarrow> any option" where
  "kv_lookup k key = (case k of None \<Rightarrow> None | Some kvs \<Rightarrow> map_of kvs key)"

text \<open>\<^verbatim>\<open>FieldType\<close> is a \<^verbatim>\<open>uint8\<close>; three of its values are named.\<close>

type_synonym FieldType = nat

definition UnknownType :: FieldType where "UnknownType = 0"
definition CodeType :: FieldType where "CodeType = 1"
definition KVType :: FieldType where "KVType = 2"

record Field =
  Type :: FieldType
  Key :: string
  Value :: any

definition Codes :: "Code \<Rightarrow> Field" where
  "Codes code = \<lparr>Type = CodeType, Key = [], Value = AnyCode code\<rparr>"

definition KVs :: "string \<Rightarrow> any \<Rightarrow> Field" where
  "KVs key v = \<lparr>Type = KVType, Key = key, Value = v\<rparr>"

text \<open>
  The run-time panics the package can meet: the type assertion \<^verbatim>\<open>field.Value.(Code)\<close> on any
  other value, and \<^verbatim>\<open>==\<close> on two values that cannot be compared.
\<close>

datatype panic = TypeAssertion | UncomparableValue

text \<open>
  \<^verbatim>\<open>WithCode\<close>, \<^verbatim>\<open>WithProperty\<close> and \<^verbatim>\<open>WithField\<close> of both node types: they assign the
  field of the receiver through the pointer and return the receiver. The model returns the
  node with the field assigned; a chain that held the node before keeps the value it had, so
  these functions say what the returned head is and nothing of what its aliases see.
\<close>

definition set_kv :: "kvmap \<Rightarrow> string \<Rightarrow> any \<Rightarrow> kvmap" where
  "set_kv k key v = Some (AList.update key v (case k of None \<Rightarrow> [] | Some kvs \<Rightarrow> kvs))"

fun node_WithCode :: "err \<Rightarrow> Code \<Rightarrow> err" where
  "node_WithCode (ERoot a g m x sp c k) code = ERoot a g m x sp code k"
| "node_WithCode (EWrap a m e f c k) code = EWrap a m e f code k"
| "node_WithCode e code = e"

fun node_WithProperty :: "err \<Rightarrow> string \<Rightarrow> any \<Rightarrow> err" where
  "node_WithProperty (ERoot a g m x sp c k) key v = ERoot a g m x sp c (set_kv k key v)"
| "node_WithProperty (EWrap a m e f c k) key v = EWrap a m e f c (set_kv k key v)"
| "node_WithProperty e key v = e"

definition node_WithField :: "err \<Rightarrow> Field \<Rightarrow> panic + err" where
  "node_WithField e field =
     (if Type field = CodeType then
        (case Value field of
           AnyCode code \<Rightarrow> Inr (node_WithCode e code)
         | _ \<Rightarrow> Inl TypeAssertion)
      else if Type field = KVType then Inr (node_WithProperty e (Key field) (Value field))
      else Inr e)"

text \<open>The loop \<^verbatim>\<open>for _, field := range fields\<close> of \<^verbatim>\<open>With\<close>.\<close>

fun node_WithFields :: "err \<Rightarrow> Field list \<Rightarrow> panic + err" where
  "node_WithFields e [] = Inr e"
| "node_WithFields e (field # fs) =
     (case node_WithField e field of
        Inl p \<Rightarrow> Inl p
      | Inr e' \<Rightarrow> node_WithFields e' fs)"

fun is_node :: "err \<Rightarrow> bool" where
  "is_node (ERoot a g m x sp c k) = True"
| "is_node (EWrap a m e f c k) = True"
| "is_node _ = False"

lemma is_node_Wrap: "e \<noteq> ENil \<Longrightarrow> is_node (fst (Wrap cs s e msg))"
  by (cases e) (simp_all add: Wrap_def wrap_def Let_def)

text \<open>
  \<^verbatim>\<open>With\<close>. A foreign error is wrapped first (\<open>cs\<close> is the capture of that inner \<^verbatim>\<open>Wrap\<close>),
  and the fields go on the new root.
\<close>

function With :: "callsite \<Rightarrow> state \<Rightarrow> err \<Rightarrow> Field list \<Rightarrow> panic + err \<times> state" where
  "With cs s e fs =
     (if e = ENil then Inr (ENil, s)
      else if is_node e then
        (case node_WithFields e fs of
           Inl p \<Rightarrow> Inl p
         | Inr e' \<Rightarrow> Inr (e', s))
      else With cs (snd (Wrap cs s e ''with property'')) (fst (Wrap cs s e ''with property''))
             fs)"
  by pat_completeness auto
termination
  by (relation "measure (\<lambda>(cs, s, e, fs). if is_node e then 0 else 1)")
    (simp_all add: is_node_Wrap)

declare With.simps [simp del]

definition WithCode :: "callsite \<Rightarrow> state \<Rightarrow> err \<Rightarrow> Code \<Rightarrow> panic + err \<times> state" where
  "WithCode cs s e code = With cs s e [Codes code]"

definition WithProperty ::
  "callsite \<Rightarrow> state \<Rightarrow> err \<Rightarrow> string \<Rightarrow> any \<Rightarrow> panic + err \<times> state" where
  "WithProperty cs s e key v = With cs s e [KVs key v]"

text \<open>
  \<^verbatim>\<open>Wrapf\<close>, \<^verbatim>\<open>PassThroughf\<close>: the argument \<open>msg\<close> is the text that \<^verbatim>\<open>fmt.Sprintf\<close> has
  made of the format and its arguments.
\<close>

definition Wrapf :: "callsite \<Rightarrow> state \<Rightarrow> err \<Rightarrow> string \<Rightarrow> err \<times> state" where
  "Wrapf cs s e msg = wrap cs s e msg DEFAULT_ERROR_CODE_WRAP"

text \<open>
  The loop \<^verbatim>\<open>for k, v := range kvs\<close> of \<^verbatim>\<open>PassThroughf\<close>. Go visits the entries of a
  map in no fixed order; this visits the bindings of the list from the last to the first,
  so that the first binding of a key, which is its value in the map, is assigned last.
\<close>

fun pass_properties ::
  "callsite \<Rightarrow> (string \<times> any) list \<Rightarrow> err \<times> state \<Rightarrow> panic + err \<times> state" where
  "pass_properties cs [] es = Inr es"
| "pass_properties cs ((k, v) # kvs) es =
     (case pass_properties cs kvs es of
        Inl p \<Rightarrow> Inl p
      | Inr (e, s) \<Rightarrow> WithProperty cs s e k v)"

definition PassThroughf :: "callsite \<Rightarrow> state \<Rightarrow> err \<Rightarrow> string \<Rightarrow> panic + err \<times> state" where
  "PassThroughf cs s e msg =
     (if e = ENil then Inr (ENil, s)
      else
        (let newErr = wrap cs s e msg DEFAULT_ERROR_CODE_WRAP;
             code = GetCode e;
             coded = (if code \<noteq> CodeUnknown then WithCode cs (snd newErr) (fst newErr) code
                      else Inr newErr)
         in case coded of
              Inl p \<Rightarrow> Inl p
            | Inr es \<Rightarrow>
                (case GetKVs e of
                   None \<Rightarrow> Inr es
                 | Some kvs \<Rightarrow> pass_properties cs kvs es)))"

text \<open>
  \<^verbatim>\<open>PassThrough\<close> passes \<^verbatim>\<open>fmt.Sprint(msg)\<close>, the message itself, to \<^verbatim>\<open>PassThroughf\<close> as the
  format, with no operands. \<open>sprintf\<close> is \<^verbatim>\<open>fmt.Sprintf\<close> of the standard library on a
  format without operands: it leaves a text with no \<^verbatim>\<open>%\<close> as it is and rewrites every verb.
\<close>

definition PassThrough ::
  "(string \<Rightarrow> string) \<Rightarrow> callsite \<Rightarrow> state \<Rightarrow> err \<Rightarrow> string \<Rightarrow> panic + err \<times> state" where
  "PassThrough sprintf cs s e msg = PassThroughf cs s e (sprintf msg)"

text \<open>
  \<^verbatim>\<open>errors.Join\<close> of the standard library: nil when every argument is nil, otherwise a new
  aggregate of the arguments that are not nil.
\<close>

definition errors_Join :: "state \<Rightarrow> err list \<Rightarrow> err \<times> state" where
  "errors_Join s errs =
     (if filter (\<lambda>e. e \<noteq> ENil) errs = [] then (ENil, s)
      else (EJoin (fresh s) (filter (\<lambda>e. e \<noteq> ENil) errs), s\<lparr>fresh := Suc (fresh s)\<rparr>))"

definition Join :: "callsite \<Rightarrow> state \<Rightarrow> err list \<Rightarrow> err \<times> state" where
  "Join cs s errs =
     (let internal = errors_Join s errs
      in if fst internal = ENil then (ENil, snd internal)
         else wrap cs (snd internal) (fst internal) ''join error'' DEFAULT_ERROR_CODE_NEW)"

section \<open>Matching (eris.go)\<close>

text \<open>
  What the package cannot see of a foreign value. \<open>foreign_Is\<close> is the result of its own
  \<^verbatim>\<open>Is\<close> method (\<open>None\<close>: the type has no such method; a method that is there is taken to
  return). \<open>join_Error\<close> is the text of \<^verbatim>\<open>Error()\<close> of an aggregate. \<open>foreign_eq\<close> is what the
  runtime makes of \<^verbatim>\<open>==\<close> on two foreign values: false when their dynamic types differ, and
  otherwise the comparison of the two values, which is false even of a value and itself when
  a field holds a NaN, and panics when an interface field holds a value that cannot be
  compared.
\<close>

record foreign_methods =
  foreign_Is :: "err \<Rightarrow> err \<Rightarrow> bool option"
  join_Error :: "err list \<Rightarrow> string"
  foreign_eq :: "err \<Rightarrow> err \<Rightarrow> panic + bool"

text \<open>\<^verbatim>\<open>reflect.TypeOf(target).Comparable()\<close>: every pointer type is comparable.\<close>

fun isComparable :: "err \<Rightarrow> bool" where
  "isComparable (EForeign f u) = f_comparable f"
| "isComparable _ = True"

text \<open>
  \<^verbatim>\<open>err == target\<close> on interface values: two pointers of this package or of
  \<^verbatim>\<open>errors.Join\<close> are equal when they are the same cell, two foreign values as the runtime
  decides, and values of different dynamic types are not equal.
\<close>

fun go_eq :: "foreign_methods \<Rightarrow> err \<Rightarrow> err \<Rightarrow> panic + bool" where
  "go_eq fm ENil ENil = Inr True"
| "go_eq fm (ERoot a g m x sp c k) (ERoot a' g' m' x' sp' c' k') = Inr (a = a')"
| "go_eq fm (EWrap a m e f c k) (EWrap a' m' e' f' c' k') = Inr (a = a')"
| "go_eq fm (EJoin a es) (EJoin a' es') = Inr (a = a')"
| "go_eq fm (EForeign f u) (EForeign f' u') = foreign_eq fm (EForeign f u) (EForeign f' u')"
| "go_eq fm _ _ = Inr False"

text \<open>\<^verbatim>\<open>reflect.DeepEqual\<close> on two property maps: a nil map equals only a nil map.\<close>

fun kvs_DeepEqual :: "kvmap \<Rightarrow> kvmap \<Rightarrow> bool" where
  "kvs_DeepEqual None None = True"
| "kvs_DeepEqual (Some a) (Some b) =
     list_all (\<lambda>x. map_of a x = map_of b x) (map fst a @ map fst b)"
| "kvs_DeepEqual _ _ = False"

text \<open>\<^verbatim>\<open>target.Error()\<close> for a target that is not a node of this package.\<close>

fun foreign_Error :: "foreign_methods \<Rightarrow> err \<Rightarrow> string" where
  "foreign_Error fm (EForeign f u) = f_text f"
| "foreign_Error fm (EJoin a es) = join_Error fm es"
| "foreign_Error fm _ = []"

text \<open>
  The comparison both \<^verbatim>\<open>Is\<close> methods make of their receiver's message, code and
  properties with the target; \<open>root\<close> tells the receiver is a root, which also wants the code
  to be the unknown code when the target is foreign.
\<close>

fun node_matches :: "foreign_methods \<Rightarrow> bool \<Rightarrow> string \<Rightarrow> Code \<Rightarrow> kvmap \<Rightarrow> err \<Rightarrow> bool" where
  "node_matches fm root msg code kvs (ERoot a' g' m' x' sp' c' k') =
     (msg = m' \<and> code = c' \<and> kvs_DeepEqual kvs k')"
| "node_matches fm root msg code kvs (EWrap a' m' e' f' c' k') =
     (msg = m' \<and> code = c' \<and> kvs_DeepEqual kvs k')"
| "node_matches fm root msg code kvs t =
     (msg = foreign_Error fm t \<and> (root \<longrightarrow> code = DEFAULT_UNKNOWN_CODE))"

text \<open>
  One test after another, as \<^verbatim>\<open>if a { return true }\<close> followed by \<open>b\<close>: a panic in the
  first ends the call, a true result is returned, and only a false one goes on to the second.
\<close>

definition or_next :: "panic + bool \<Rightarrow> panic + bool \<Rightarrow> panic + bool" where
  "or_next a b = (case a of Inl p \<Rightarrow> Inl p | Inr True \<Rightarrow> Inr True | Inr False \<Rightarrow> b)"

text \<open>
  \<^verbatim>\<open>Is\<close>, with the \<^verbatim>\<open>Is\<close> methods of \<^verbatim>\<open>*rootError\<close> and \<^verbatim>\<open>*wrapError\<close> in place: one
  equation for each dynamic type of \<open>err\<close>, each the body of the loop (the test
  \<^verbatim>\<open>isComparable && err == target\<close>, then the \<^verbatim>\<open>Is\<close> method) followed by the loop on
  \<^verbatim>\<open>Unwrap(err)\<close>. \<open>Is_members\<close> is the loop of \<^verbatim>\<open>rootError.Is\<close> over the members of an
  aggregate.
\<close>

fun Is :: "foreign_methods \<Rightarrow> err \<Rightarrow> err \<Rightarrow> panic + bool"
  and Is_members :: "foreign_methods \<Rightarrow> err list \<Rightarrow> err \<Rightarrow> panic + bool" where
  "Is fm e ENil = Inr (e = ENil)"
| "Is fm ENil t = Inr False"
| "Is fm (ERoot a g m x sp c k) t =
     or_next (if isComparable t then go_eq fm (ERoot a g m x sp c k) t else Inr False)
       (or_next
          (case x of
             EJoin j es \<Rightarrow> Is_members fm es t
           | _ \<Rightarrow> Inr (node_matches fm True m c k t))
          (if x = ENil then Inr False else Is fm x t))"
| "Is fm (EWrap a m e f c k) t =
     or_next (if isComparable t then go_eq fm (EWrap a m e f c k) t else Inr False)
       (or_next (Inr (node_matches fm False m c k t))
          (if e = ENil then Inr False else Is fm e t))"
| "Is fm (EForeign f u) t =
     or_next (if isComparable t then go_eq fm (EForeign f u) t else Inr False)
       (or_next (Inr (foreign_Is fm (EForeign f u) t = Some True))
          (case u of
             Some e \<Rightarrow> if e = ENil then Inr False else Is fm e t
           | None \<Rightarrow> Inr False))"
| "Is fm (EJoin a es) t =
     or_next (if isComparable t then go_eq fm (EJoin a es) t else Inr False) (Inr False)"
| "Is_members fm [] t = Inr False"
| "Is_members fm (e # es) t = or_next (Is fm e t) (Is_members fm es t)"

section \<open>Rendering (format.go)\<close>

record FormatOptions =
  InvertOutput :: bool
  WithTrace :: bool
  InvertTrace :: bool
  WithExternal :: bool

record StringFormat =
  Options :: FormatOptions
  MsgStackSep :: string
  PreStackSep :: string
  StackElemSep :: string
  ErrorSep :: string

definition newline :: char where "newline = CHR 0x0A"
definition tab :: char where "tab = CHR 0x09"

definition NewDefaultStringFormat :: "FormatOptions \<Rightarrow> StringFormat" where
  "NewDefaultStringFormat options =
     (if WithTrace options then
        \<lparr>Options = options, MsgStackSep = [newline], PreStackSep = [tab],
         StackElemSep = '':'', ErrorSep = [newline]\<rparr>
      else
        \<lparr>Options = options, MsgStackSep = [], PreStackSep = [], StackElemSep = [],
         ErrorSep = '': ''\<rparr>)"

text \<open>Library functions on strings: \<^verbatim>\<open>strings.Join\<close>, \<^verbatim>\<open>strings.Split\<close> at a newline,
  and the decimal numerals of \<^verbatim>\<open>%d\<close>.\<close>

fun strings_Join :: "string list \<Rightarrow> string \<Rightarrow> string" where
  "strings_Join [] sep = []"
| "strings_Join [x] sep = x"
| "strings_Join (x # y # ys) sep = x @ sep @ strings_Join (y # ys) sep"

fun split_lines :: "string \<Rightarrow> string list" where
  "split_lines [] = [[]]"
| "split_lines (c # cs) =
     (if c = newline then [] # split_lines cs
      else (case split_lines cs of
              [] \<Rightarrow> [[c]]
            | l # ls \<Rightarrow> (c # l) # ls))"

definition digit :: "nat \<Rightarrow> char" where
  "digit d = ''0123456789'' ! d"

function decimal :: "nat \<Rightarrow> string" where
  "decimal n = (if n < 10 then [digit n] else decimal (n div 10) @ [digit (n mod 10)])"
  by pat_completeness auto
termination
  by (relation "measure id") simp_all

declare decimal.simps [simp del]

definition decimal_int :: "int \<Rightarrow> string" where
  "decimal_int i = (if i < 0 then CHR ''-'' # decimal (nat (- i)) else decimal (nat i))"

text \<open>
  \<^verbatim>\<open>fmt.Sprintf("%v", kvs)\<close> for a map: \<^verbatim>\<open>map[k:v k:v]\<close>, the keys in byte order, a code
  value through its \<^verbatim>\<open>String\<close> method.
\<close>

fun fmt_any :: "any \<Rightarrow> string" where
  "fmt_any AnyNil = ''<nil>''"
| "fmt_any (AnyString s) = s"
| "fmt_any (AnyInt i) = decimal_int i"
| "fmt_any (AnyBool b) = (if b then ''true'' else ''false'')"
| "fmt_any (AnyCode c) = Code_String c"

fun string_le :: "string \<Rightarrow> string \<Rightarrow> bool" where
  "string_le [] ys = True"
| "string_le (x # xs) [] = False"
| "string_le (x # xs) (y # ys) =
     ((of_char x :: nat) < of_char y \<or> (x = y \<and> string_le xs ys))"

fun insert_key :: "string \<times> any \<Rightarrow> (string \<times> any) list \<Rightarrow> (string \<times> any) list" where
  "insert_key kv [] = [kv]"
| "insert_key kv (x # xs) =
     (if string_le (fst kv) (fst x) then kv # x # xs else x # insert_key kv xs)"

definition fmt_map :: "(string \<times> any) list \<Rightarrow> string" where
  "fmt_map kvs =
     ''map['' @ strings_Join (map (\<lambda>kv. fst kv @ '':'' @ fmt_any (snd kv))
                  (foldr insert_key (AList.clearjunk kvs) [])) '' '' @ '']''"

definition kvs_len :: "kvmap \<Rightarrow> nat" where
  "kvs_len k = (case k of None \<Rightarrow> 0 | Some kvs \<Rightarrow> length (AList.clearjunk kvs))"

record StackFrame =
  Name :: string
  File :: string
  Line :: int

record ErrRoot =
  root_Msg :: string
  root_Stack :: "StackFrame list"
  root_code :: Code
  root_kvs :: kvmap

record ErrLink =
  link_Msg :: string
  link_Frame :: StackFrame
  link_code :: Code
  link_kvs :: kvmap

record UnpackedError =
  ErrExternal :: err
  ErrRoot :: ErrRoot
  ErrChain :: "ErrLink list"

text \<open>
  What rendering takes from outside the package: the symbol table of the runtime, which
  resolves a program counter to its frame, and \<^verbatim>\<open>fmt.Sprintf\<close> with \<^verbatim>\<open>%v\<close> (\<open>False\<close>) or
  \<^verbatim>\<open>%+v\<close> (\<open>True\<close>) on an error value.
\<close>

record printer =
  resolve :: "pc \<Rightarrow> StackFrame"
  sprint_error :: "bool \<Rightarrow> err \<Rightarrow> string"

text \<open>
  Modelled from the spec: \<^verbatim>\<open>stack.get\<close>, \<^verbatim>\<open>frame.get\<close>, \<^verbatim>\<open>StackFrame.format\<close> and
  \<^verbatim>\<open>Stack.format\<close> are not among the sources. The spec has symbol resolution
  "(function/file/line) deferred until render time", "one \<^verbatim>\<open><function><sep><file><sep><line>\<close>
  line per frame" and a Stack in capture order, "invertible on render".
\<close>

definition stack_get :: "printer \<Rightarrow> pc list \<Rightarrow> StackFrame list" where
  "stack_get pr pcs = map (resolve pr) pcs"

definition frame_get :: "printer \<Rightarrow> pc \<Rightarrow> StackFrame" where
  "frame_get pr p = resolve pr p"

definition StackFrame_format :: "StackFrame \<Rightarrow> string \<Rightarrow> string" where
  "StackFrame_format f sep = Name f @ sep @ File f @ sep @ decimal_int (Line f)"

definition Stack_format :: "StackFrame list \<Rightarrow> string \<Rightarrow> bool \<Rightarrow> string list" where
  "Stack_format st sep invert =
     (if invert then rev (map (\<lambda>f. StackFrame_format f sep) st)
      else map (\<lambda>f. StackFrame_format f sep) st)"

text \<open>\<^verbatim>\<open>Unpack\<close>: the zero value of the result, and the loop over the chain.\<close>

definition zero_UnpackedError :: UnpackedError where
  "zero_UnpackedError =
     \<lparr>ErrExternal = ENil,
      ErrRoot = \<lparr>root_Msg = [], root_Stack = [], root_code = 0, root_kvs = None\<rparr>,
      ErrChain = []\<rparr>"

fun Unpack_loop :: "printer \<Rightarrow> state \<Rightarrow> err \<Rightarrow> UnpackedError \<Rightarrow> UnpackedError" where
  "Unpack_loop pr s ENil upErr = upErr"
| "Unpack_loop pr s (ERoot a g m x sp c k) upErr =
     Unpack_loop pr s x
       (upErr\<lparr>ErrRoot := \<lparr>root_Msg = m, root_Stack = stack_get pr (stacks s sp),
                          root_code = c, root_kvs = k\<rparr>\<rparr>)"
| "Unpack_loop pr s (EWrap a m e f c k) upErr =
     Unpack_loop pr s e
       (upErr\<lparr>ErrChain := \<lparr>link_Msg = m, link_Frame = frame_get pr f,
                           link_code = c, link_kvs = k\<rparr> # ErrChain upErr\<rparr>)"
| "Unpack_loop pr s e upErr = upErr\<lparr>ErrExternal := e\<rparr>"

definition Unpack :: "printer \<Rightarrow> state \<Rightarrow> err \<Rightarrow> UnpackedError" where
  "Unpack pr s e = Unpack_loop pr s e zero_UnpackedError"

text \<open>\<^verbatim>\<open>formatExternalStr\<close>: an aggregate prints each member numbered and indented.\<close>

fun number_members :: "printer \<Rightarrow> bool \<Rightarrow> nat \<Rightarrow> err list \<Rightarrow> string list" where
  "number_members pr withTrace i [] = []"
| "number_members pr withTrace i (e # es) =
     (decimal i @ ''>''
        @ strings_Join (map (\<lambda>line. tab # line) (split_lines (sprint_error pr withTrace e)))
            [newline])
     # number_members pr withTrace (Suc i) es"

fun formatExternalStr :: "printer \<Rightarrow> err \<Rightarrow> bool \<Rightarrow> string" where
  "formatExternalStr pr (EJoin a es) withTrace =
     strings_Join (number_members pr withTrace 0 es) [newline]"
| "formatExternalStr pr e withTrace = sprint_error pr withTrace e"

text \<open>The loop of \<^verbatim>\<open>ErrRoot.formatStr\<close> over the formatted frames.\<close>

fun frames_str :: "StringFormat \<Rightarrow> string list \<Rightarrow> string" where
  "frames_str format [] = []"
| "frames_str format [frame] = PreStackSep format @ frame"
| "frames_str format (frame # rest) =
     PreStackSep format @ frame @ ErrorSep format @ frames_str format rest"

definition ErrRoot_formatStr :: "ErrRoot \<Rightarrow> StringFormat \<Rightarrow> string" where
  "ErrRoot_formatStr r format =
     (let kvs = (if kvs_len (root_kvs r) > 0 then '' KVs('' @ fmt_map (the (root_kvs r)) @ '')''
                 else [])
      in if kvs = [] \<and> root_code r = DEFAULT_ERROR_CODE_NEW \<and> root_Msg r = [] then []
         else
           ''code('' @ Code_String (root_code r) @ '')'' @ kvs @ '' '' @ root_Msg r
             @ MsgStackSep format
             @ (if WithTrace (Options format) then
                  frames_str format
                    (Stack_format (root_Stack r) (StackElemSep format)
                       (InvertTrace (Options format)))
                else []))"

definition ErrLink_formatStr :: "ErrLink \<Rightarrow> StringFormat \<Rightarrow> string" where
  "ErrLink_formatStr l format =
     (let kvs = (if kvs_len (link_kvs l) > 0 then '' KVs('' @ fmt_map (the (link_kvs l)) @ '')''
                 else [])
      in ''code('' @ Code_String (link_code l) @ '')'' @ kvs @ '' '' @ link_Msg l
           @ MsgStackSep format
           @ (if WithTrace (Options format) then
                PreStackSep format @ StackFrame_format (link_Frame l) (StackElemSep format)
              else []))"

text \<open>
  \<^verbatim>\<open>ToCustomString\<close>. The test that both branches make before the separator between the
  root and the external error, and the two orders of output.
\<close>

definition root_shows :: "UnpackedError \<Rightarrow> StringFormat \<Rightarrow> bool" where
  "root_shows upErr format =
     ((WithTrace (Options format) \<and> length (root_Stack (ErrRoot upErr)) > 0)
      \<or> root_Msg (ErrRoot upErr) \<noteq> [])"

definition ToCustomString :: "printer \<Rightarrow> state \<Rightarrow> err \<Rightarrow> StringFormat \<Rightarrow> string" where
  "ToCustomString pr s e format =
     (let upErr = Unpack pr s e;
          hasExt = (WithExternal (Options format) \<and> ErrExternal upErr \<noteq> ENil);
          externalStr = formatExternalStr pr (ErrExternal upErr) (WithTrace (Options format));
          rootErrStr = ErrRoot_formatStr (ErrRoot upErr) format
      in if InvertOutput (Options format) then
           (let errSep = (hasExt \<and> newline \<notin> set externalStr \<and> root_shows upErr format);
                str = (if hasExt then
                         externalStr
                           @ (if newline \<in> set externalStr then [newline]
                              else if root_shows upErr format then ErrorSep format
                              else [])
                       else []);
                space = (if \<not> errSep \<and> length rootErrStr > 0 \<and> length (ErrChain upErr) = 0
                         then '' '' else [])
            in str @ space @ rootErrStr
                 @ concat (map (\<lambda>eLink. ErrorSep format @ ErrLink_formatStr eLink format)
                             (ErrChain upErr)))
         else
           concat (map (\<lambda>eLink. ErrLink_formatStr eLink format @ ErrorSep format)
                     (rev (ErrChain upErr)))
             @ rootErrStr
             @ (if hasExt then
                  (if newline \<in> set externalStr then [newline]
                   else if root_shows upErr format then ErrorSep format
                   else [])
                  @ externalStr
                else []))"

definition ToString :: "printer \<Rightarrow> state \<Rightarrow> err \<Rightarrow> bool \<Rightarrow> string" where
  "ToString pr s e withTrace =
     ToCustomString pr s e
       (NewDefaultStringFormat
          \<lparr>InvertOutput = False, WithTrace = withTrace, InvertTrace = False,
           WithExternal = True\<rparr>)"

record JSONFormat =
  JSONOptions :: FormatOptions
  JSONStackElemSep :: string

definition NewDefaultJSONFormat :: "FormatOptions \<Rightarrow> JSONFormat" where
  "NewDefaultJSONFormat options = \<lparr>JSONOptions = options, JSONStackElemSep = '':''\<rparr>"

text \<open>
  The values of a \<^verbatim>\<open>map[string]any\<close> that the JSON renderer builds: a string, a sequence
  of strings, a property map, a nested map, a sequence of maps. A map is the list of its
  entries, each key once.
\<close>

datatype json =
    JString string
  | JStrings "string list"
  | JProps "(string \<times> any) list"
  | JObject "(string \<times> json) list"
  | JArray "json list"

definition ErrRoot_formatJSON :: "ErrRoot \<Rightarrow> JSONFormat \<Rightarrow> (string \<times> json) list" where
  "ErrRoot_formatJSON r format =
     [(''code'', JString (Code_String (root_code r))), (''message'', JString (root_Msg r))]
     @ (if root_kvs r \<noteq> None \<and> kvs_len (root_kvs r) > 0
        then [(''KVs'', JProps (the (root_kvs r)))] else [])
     @ (if WithTrace (JSONOptions format)
        then [(''stack'', JStrings (Stack_format (root_Stack r) (JSONStackElemSep format)
                                     (InvertTrace (JSONOptions format))))]
        else [])"

definition ErrLink_formatJSON :: "ErrLink \<Rightarrow> JSONFormat \<Rightarrow> (string \<times> json) list" where
  "ErrLink_formatJSON l format =
     [(''code'', JString (Code_String (link_code l))), (''message'', JString (link_Msg l))]
     @ (if link_kvs l \<noteq> None \<and> kvs_len (link_kvs l) > 0
        then [(''KVs'', JProps (the (link_kvs l)))] else [])
     @ (if WithTrace (JSONOptions format)
        then [(''stack'', JString (StackFrame_format (link_Frame l) (JSONStackElemSep format)))]
        else [])"

lemma Unpack_loop_external_size:
  "ErrExternal (Unpack_loop pr s e upErr) = EJoin a es \<Longrightarrow> ErrExternal upErr = ENil
     \<Longrightarrow> m \<in> set es \<Longrightarrow> size m < size e"
proof (induction pr s e upErr rule: Unpack_loop.induct)
  fix pr s j and ms :: "err list" and upErr
  assume "ErrExternal (Unpack_loop pr s (EJoin j ms) upErr) = EJoin a es" and "m \<in> set es"
  then have "m \<in> set ms" by simp
  then have "size m \<le> size_list size ms" by (rule size_list_estimation') simp
  then show "size m < size (EJoin j ms)" by simp
qed auto

text \<open>
  \<^verbatim>\<open>ToCustomJSON\<close>: the key \<^verbatim>\<open>external\<close> or, for an aggregate, \<^verbatim>\<open>externals\<close> with one
  rendered map for each member; then \<^verbatim>\<open>root\<close>; then \<^verbatim>\<open>wrap\<close>, which the loop builds by
  appending when the output is inverted and by prepending otherwise.
\<close>

function ToCustomJSON ::
  "printer \<Rightarrow> state \<Rightarrow> err \<Rightarrow> JSONFormat \<Rightarrow> (string \<times> json) list" where
  "ToCustomJSON pr s e format =
     (if WithExternal (JSONOptions format) \<and> ErrExternal (Unpack pr s e) \<noteq> ENil then
        (case ErrExternal (Unpack pr s e) of
           EJoin a es \<Rightarrow>
             [(''externals'', JArray (map (\<lambda>m. JObject (ToCustomJSON pr s m format)) es))]
         | x \<Rightarrow>
             [(''external'',
               JString (formatExternalStr pr x (WithTrace (JSONOptions format))))])
      else [])
     @ (if root_Msg (ErrRoot (Unpack pr s e)) \<noteq> []
           \<or> length (root_Stack (ErrRoot (Unpack pr s e))) > 0
        then [(''root'', JObject (ErrRoot_formatJSON (ErrRoot (Unpack pr s e)) format))]
        else [])
     @ (if length (ErrChain (Unpack pr s e)) > 0
        then [(''wrap'',
               JArray (map (\<lambda>eLink. JObject (ErrLink_formatJSON eLink format))
                         (if InvertOutput (JSONOptions format) then ErrChain (Unpack pr s e)
                          else rev (ErrChain (Unpack pr s e)))))]
        else [])"
  by pat_completeness auto
termination
  apply (relation "measure (\<lambda>(pr, s, e, format). size e)")
   apply simp
  apply (auto simp: Unpack_def zero_UnpackedError_def dest!: Unpack_loop_external_size)
  done

declare ToCustomJSON.simps [simp del]

definition ToJSON :: "printer \<Rightarrow> state \<Rightarrow> err \<Rightarrow> bool \<Rightarrow> (string \<times> json) list" where
  "ToJSON pr s e withTrace =
     ToCustomJSON pr s e
       (NewDefaultJSONFormat
          \<lparr>InvertOutput = False, WithTrace = withTrace, InvertTrace = False,
           WithExternal = True\<rparr>)"

text \<open>
  The node at which a chain of links ends: follow \<^verbatim>\<open>err\<close> through every \<^verbatim>\<open>*wrapError\<close>.
\<close>

fun chain_root :: "err \<Rightarrow> err" where
  "chain_root (EWrap a m e f c k) = chain_root e"
| "chain_root e = e"

definition is_local_root :: "err \<Rightarrow> bool" where
  "is_local_root r = (case r of ERoot a g m x sp c k \<Rightarrow> \<not> g | _ \<Rightarrow> False)"

text \<open>
  \<open>wraps_onto r e\<close>: \<open>e\<close> is the root \<open>r\<close> itself, or a chain of links that ends in \<open>r\<close>
  where \<open>r\<close> has no foreign error below it.
\<close>

definition wraps_onto :: "err \<Rightarrow> err \<Rightarrow> bool" where
  "wraps_onto r e = (e = r \<or> (r_ext r = ENil \<and> chain_root e = r))"

text \<open>
  What the loop of \<^verbatim>\<open>PassThroughf\<close> leaves on a node: every binding of the list assigned,
  the first binding of a key last.
\<close>

fun put_all :: "(string \<times> any) list \<Rightarrow> err \<Rightarrow> err" where
  "put_all [] n = n"
| "put_all ((k, v) # kvs) n = node_WithProperty (put_all kvs n) k v"

section \<open>Wrapping and the stack of the root\<close>

lemma Cause_chain_root:
  "chain_root e = ERoot a g m ENil sp c k \<Longrightarrow> Cause e = ERoot a g m ENil sp c k"
proof (induction e rule: chain_root.induct)
  case (1 a' m' e f' c' k')
  then have "Cause e = ERoot a g m ENil sp c k" by simp
  moreover from 1 have "e \<noteq> ENil" by auto
  ultimately show ?case by (simp add: Cause.simps [of "EWrap a' m' e f' c' k'"])
qed (simp_all add: Cause.simps)

lemma wrap_link_stacks:
  assumes "chain_root (EWrap a' m' e' f' c' k') = ERoot a g m ENil sp c k"
  shows "stacks (snd (wrap cs s (EWrap a' m' e' f' c' k') msg code)) =
         (stacks s)(sp := insertPC (stacks s sp) (cs_stack cs))"
  using Cause_chain_root [OF assms] by (simp add: wrap_def)

lemma wrap_local_root_stacks:
  "stacks (snd (wrap cs s (ERoot a False m x sp c k) msg code)) =
   (stacks s)(sp := insertPC (stacks s sp) (cs_stack cs))"
  by (simp add: wrap_def)

lemma wrap_onto_local_stacks:
  assumes "is_local_root r" and "wraps_onto r e"
  shows "stacks (snd (wrap cs s e msg code)) =
         (stacks s)(r_stack r := insertPC (stacks s (r_stack r)) (cs_stack cs))"
proof -
  from assms(1) obtain a m x sp c k where r: "r = ERoot a False m x sp c k"
    by (cases r) (simp_all add: is_local_root_def)
  show ?thesis
  proof (cases "e = r")
    case True
    with r show ?thesis by (simp add: wrap_local_root_stacks)
  next
    case False
    with assms(2) r have x: "x = ENil" and cr: "chain_root e = ERoot a False m ENil sp c k"
      by (simp_all add: wraps_onto_def)
    from False cr r x obtain a' m' e' f' c' k' where e: "e = EWrap a' m' e' f' c' k'"
      by (cases e) auto
    from cr e have "chain_root (EWrap a' m' e' f' c' k') = ERoot a False m ENil sp c k"
      by simp
    from wrap_link_stacks [OF this] e r show ?thesis by simp
  qed
qed

lemma length_insertPC: "w \<noteq> [] \<Longrightarrow> length (insertPC s w) = Suc (length s)"
  by (cases w) simp_all

text \<open>
  C1, as the code has it. A direct wrap of a root marked global leaves the stack of that
  root as it was and returns a link over a newly allocated root: same message, same code,
  the global mark, and a stack cell of its own holding the capture. A wrap of a link whose
  chain ends in a root (with no foreign error below it) inserts the capture into the stack
  of that root in place, whether the root is marked global or not.
\<close>

theorem wrap_global_copy_link_inserts:
  "(sp < fresh s \<longrightarrow>
      StackFrames (snd (wrap cs s (ERoot a True m x sp c k) msg code)) (ERoot a True m x sp c k)
        = StackFrames s (ERoot a True m x sp c k)
      \<and> Unwrap (fst (wrap cs s (ERoot a True m x sp c k) msg code))
        = ERoot (fresh s) True m ENil (Suc (fresh s)) c None
      \<and> StackFrames (snd (wrap cs s (ERoot a True m x sp c k) msg code))
          (Unwrap (fst (wrap cs s (ERoot a True m x sp c k) msg code))) = cs_stack cs)
   \<and> (chain_root (EWrap a' m' e' f' c' k') = ERoot a g m ENil sp c k \<longrightarrow>
      StackFrames (snd (wrap cs s (EWrap a' m' e' f' c' k') msg code)) (ERoot a g m ENil sp c k)
        = insertPC (StackFrames s (ERoot a g m ENil sp c k)) (cs_stack cs))"
proof (intro conjI impI)
  assume "sp < fresh s"
  then show "StackFrames (snd (wrap cs s (ERoot a True m x sp c k) msg code))
      (ERoot a True m x sp c k) = StackFrames s (ERoot a True m x sp c k)"
    by (simp add: wrap_def Let_def)
next
  show "Unwrap (fst (wrap cs s (ERoot a True m x sp c k) msg code))
      = ERoot (fresh s) True m ENil (Suc (fresh s)) c None"
    by (simp add: wrap_def Let_def)
next
  show "StackFrames (snd (wrap cs s (ERoot a True m x sp c k) msg code))
      (Unwrap (fst (wrap cs s (ERoot a True m x sp c k) msg code))) = cs_stack cs"
    by (simp add: wrap_def Let_def)
next
  assume "chain_root (EWrap a' m' e' f' c' k') = ERoot a g m ENil sp c k"
  from wrap_link_stacks [OF this]
  show "StackFrames (snd (wrap cs s (EWrap a' m' e' f' c' k') msg code))
      (ERoot a g m ENil sp c k) = insertPC (StackFrames s (ERoot a g m ENil sp c k)) (cs_stack cs)"
    by simp
qed

theorem wrap_global_copy_link_inserts_witness:
  "(1::nat) < 3
   \<and> StackFrames (snd (wrap \<lparr>cs_stack = [9], cs_frame = 9\<rparr>
         \<lparr>stacks = (\<lambda>_. [])(1 := [7]), fresh = 3\<rparr>
         (ERoot 0 True ''global error'' ENil 1 CodeUnknown None) ''a'' CodeInternal))
       (ERoot 0 True ''global error'' ENil 1 CodeUnknown None) = [7]
   \<and> Unwrap (fst (wrap \<lparr>cs_stack = [9], cs_frame = 9\<rparr>
         \<lparr>stacks = (\<lambda>_. [])(1 := [7]), fresh = 3\<rparr>
         (ERoot 0 True ''global error'' ENil 1 CodeUnknown None) ''a'' CodeInternal))
       = ERoot 3 True ''global error'' ENil 4 CodeUnknown None
   \<and> chain_root (EWrap 2 ''a'' (ERoot 0 False ''root error'' ENil 1 CodeUnknown None) 8
         CodeInternal None) = ERoot 0 False ''root error'' ENil 1 CodeUnknown None
   \<and> StackFrames (snd (wrap \<lparr>cs_stack = [9], cs_frame = 9\<rparr>
         \<lparr>stacks = (\<lambda>_. [])(1 := [7]), fresh = 3\<rparr>
         (EWrap 2 ''a'' (ERoot 0 False ''root error'' ENil 1 CodeUnknown None) 8
            CodeInternal None) ''b'' CodeInternal))
       (ERoot 0 False ''root error'' ENil 1 CodeUnknown None) = [9, 7]"
  using wrap_global_copy_link_inserts [of 1 "\<lparr>stacks = (\<lambda>_. [])(1 := [7]), fresh = 3\<rparr>"
      "\<lparr>cs_stack = [9], cs_frame = 9\<rparr>" 0 "''global error''" ENil CodeUnknown None "''a''"
      CodeInternal]
    wrap_global_copy_link_inserts [of 1 "\<lparr>stacks = (\<lambda>_. [])(1 := [7]), fresh = 3\<rparr>"
      "\<lparr>cs_stack = [9], cs_frame = 9\<rparr>" 0 "''root error''" ENil CodeUnknown None "''b''"
      CodeInternal 2 "''a''" "ERoot 0 False ''root error'' ENil 1 CodeUnknown None" 8
      CodeInternal None False]
  by simp

text \<open>
  C1 as stated fails: a link above a root marked global (the chain that \<^verbatim>\<open>Wrap\<close> returns
  for a global sentinel) is wrapped once more, and the stack of that root changes.
\<close>

theorem wrap_link_over_global_root_counterexample:
  "r_global (chain_root (EWrap 5 ''a'' (ERoot 3 True ''global error'' ENil 4 CodeUnknown None) 8
       CodeInternal None))
   \<and> StackFrames (snd (wrap \<lparr>cs_stack = [9], cs_frame = 9\<rparr>
         \<lparr>stacks = (\<lambda>_. [])(1 := [7], 4 := [8]), fresh = 6\<rparr>
         (EWrap 5 ''a'' (ERoot 3 True ''global error'' ENil 4 CodeUnknown None) 8
            CodeInternal None) ''b'' CodeInternal))
       (ERoot 3 True ''global error'' ENil 4 CodeUnknown None)
     \<noteq> StackFrames \<lparr>stacks = (\<lambda>_. [])(1 := [7], 4 := [8]), fresh = 6\<rparr>
       (ERoot 3 True ''global error'' ENil 4 CodeUnknown None)"
  by (simp add: wrap_def Cause.simps)

text \<open>
  Where \<^verbatim>\<open>Cause\<close> finds the root, the stack of a local root grows by one frame with each
  wrap of a non-empty capture: a wrap of the root itself, or of a chain of links above a root
  that has no foreign error below it.
\<close>

lemma Wrap_local_root_grows_by_one:
  assumes "is_local_root r" and "wraps_onto r e1" and "wraps_onto r e2"
    and "cs_stack cs1 \<noteq> []" and "cs_stack cs2 \<noteq> []"
  shows "length (StackFrames (snd (Wrap cs1 s e1 m1)) r) = length (StackFrames s r) + 1
       \<and> length (StackFrames (snd (Wrap cs2 (snd (Wrap cs1 s e1 m1)) e2 m2)) r)
           = length (StackFrames s r) + 2"
proof -
  from assms(1) obtain a m x sp c k where r: "r = ERoot a False m x sp c k"
    by (cases r) (simp_all add: is_local_root_def)
  let ?s1 = "snd (Wrap cs1 s e1 m1)"
  have one: "stacks ?s1 = (stacks s)(sp := insertPC (stacks s sp) (cs_stack cs1))"
    using wrap_onto_local_stacks [OF assms(1,2)] r by (simp add: Wrap_def)
  have two: "stacks (snd (Wrap cs2 ?s1 e2 m2))
      = (stacks ?s1)(sp := insertPC (stacks ?s1 sp) (cs_stack cs2))"
    using wrap_onto_local_stacks [OF assms(1,3)] r by (simp add: Wrap_def)
  from one have "length (StackFrames ?s1 r) = length (StackFrames s r) + 1"
    using r assms(4) by (simp add: length_insertPC)
  moreover from one two
  have "length (StackFrames (snd (Wrap cs2 ?s1 e2 m2)) r) = length (StackFrames s r) + 2"
    using r assms(4,5) by (simp add: length_insertPC)
  ultimately show ?thesis by simp
qed

lemma Cause_chain_foreign_root:
  "chain_root e = ERoot a g m (EForeign fo None) sp c k \<Longrightarrow> Cause e = EForeign fo None"
proof (induction e rule: chain_root.induct)
  fix a' m' e f' c' k'
  assume ih: "chain_root e = ERoot a g m (EForeign fo None) sp c k \<Longrightarrow> Cause e = EForeign fo None"
    and cr: "chain_root (EWrap a' m' e f' c' k') = ERoot a g m (EForeign fo None) sp c k"
  from cr have "chain_root e = ERoot a g m (EForeign fo None) sp c k" by simp
  with ih have "Cause e = EForeign fo None" by simp
  moreover from cr have "e \<noteq> ENil" by auto
  ultimately show "Cause (EWrap a' m' e f' c' k') = EForeign fo None"
    by (simp add: Cause.simps [of "EWrap a' m' e f' c' k'"])
qed (simp_all add: Cause.simps)

text \<open>
  C2 at a local root that wraps a foreign error, the root that \<^verbatim>\<open>Wrap\<close> makes of every
  foreign error. A \<^verbatim>\<open>Wrap\<close> of the root itself inserts the capture into its stack. A
  \<^verbatim>\<open>Wrap\<close> of a link above it does not: the branch that is to insert the frame looks for
  the root with \<^verbatim>\<open>Cause\<close>, which goes on below the root and returns the foreign error, and
  the stack of the root stays as it was.
\<close>

theorem Wrap_link_over_foreign_root_drops_frame:
  assumes "chain_root (EWrap a' m' e' f' c' k') = ERoot a False m (EForeign fo None) sp c k"
  shows "StackFrames (snd (Wrap cs s (EWrap a' m' e' f' c' k') msg))
           (ERoot a False m (EForeign fo None) sp c k)
         = StackFrames s (ERoot a False m (EForeign fo None) sp c k)
       \<and> StackFrames (snd (Wrap cs s (ERoot a False m (EForeign fo None) sp c k) msg))
           (ERoot a False m (EForeign fo None) sp c k)
         = insertPC (StackFrames s (ERoot a False m (EForeign fo None) sp c k)) (cs_stack cs)"
proof
  from Cause_chain_foreign_root [OF assms]
  show "StackFrames (snd (Wrap cs s (EWrap a' m' e' f' c' k') msg))
           (ERoot a False m (EForeign fo None) sp c k)
         = StackFrames s (ERoot a False m (EForeign fo None) sp c k)"
    by (simp add: Wrap_def wrap_def)
next
  show "StackFrames (snd (Wrap cs s (ERoot a False m (EForeign fo None) sp c k) msg))
           (ERoot a False m (EForeign fo None) sp c k)
         = insertPC (StackFrames s (ERoot a False m (EForeign fo None) sp c k)) (cs_stack cs)"
    by (simp add: Wrap_def wrap_local_root_stacks)
qed

theorem Wrap_link_over_foreign_root_drops_frame_witness:
  "chain_root (EWrap 2 ''even more context'' (ERoot 0 False ''additional context''
       (EForeign \<lparr>f_ident = 0, f_comparable = True, f_text = ''external error'',
          f_code = None, f_kvs = None\<rparr> None) 1 CodeInternal None) 8 CodeInternal None)
     = ERoot 0 False ''additional context''
       (EForeign \<lparr>f_ident = 0, f_comparable = True, f_text = ''external error'',
          f_code = None, f_kvs = None\<rparr> None) 1 CodeInternal None
   \<and> StackFrames (snd (Wrap \<lparr>cs_stack = [9, 6], cs_frame = 9\<rparr>
         \<lparr>stacks = (\<lambda>_. [])(1 := [8, 7, 6]), fresh = 3\<rparr>
         (EWrap 2 ''even more context'' (ERoot 0 False ''additional context''
            (EForeign \<lparr>f_ident = 0, f_comparable = True, f_text = ''external error'',
               f_code = None, f_kvs = None\<rparr> None) 1 CodeInternal None) 8 CodeInternal None)
         ''way too much context''))
       (ERoot 0 False ''additional context''
          (EForeign \<lparr>f_ident = 0, f_comparable = True, f_text = ''external error'',
             f_code = None, f_kvs = None\<rparr> None) 1 CodeInternal None)
     = [8, 7, 6]
   \<and> StackFrames (snd (Wrap \<lparr>cs_stack = [9, 6], cs_frame = 9\<rparr>
         \<lparr>stacks = (\<lambda>_. [])(1 := [8, 7, 6]), fresh = 3\<rparr>
         (ERoot 0 False ''additional context''
            (EForeign \<lparr>f_ident = 0, f_comparable = True, f_text = ''external error'',
               f_code = None, f_kvs = None\<rparr> None) 1 CodeInternal None)
         ''way too much context''))
       (ERoot 0 False ''additional context''
          (EForeign \<lparr>f_ident = 0, f_comparable = True, f_text = ''external error'',
             f_code = None, f_kvs = None\<rparr> None) 1 CodeInternal None)
     = [9, 8, 7, 6]"
proof -
  have cr: "chain_root (EWrap 2 ''even more context'' (ERoot 0 False ''additional context''
       (EForeign \<lparr>f_ident = 0, f_comparable = True, f_text = ''external error'',
          f_code = None, f_kvs = None\<rparr> None) 1 CodeInternal None) 8 CodeInternal None)
     = ERoot 0 False ''additional context''
       (EForeign \<lparr>f_ident = 0, f_comparable = True, f_text = ''external error'',
          f_code = None, f_kvs = None\<rparr> None) 1 CodeInternal None"
    by simp
  from Wrap_link_over_foreign_root_drops_frame [OF cr,
      of "\<lparr>cs_stack = [9, 6], cs_frame = 9\<rparr>"
         "\<lparr>stacks = (\<lambda>_. [])(1 := [8, 7, 6]), fresh = 3\<rparr>" "''way too much context''"]
  show ?thesis using cr by simp
qed

text \<open>
  The same search below the root can end in another root. A link above a root that wraps a
  foreign error which itself wraps a global sentinel (\<^verbatim>\<open>fmt.Errorf("%w", sentinel)\<close>): the
  frame of the wrap goes into the stack of the sentinel.
\<close>

lemma Wrap_link_reaches_root_below_foreign:
  "StackFrames (snd (Wrap \<lparr>cs_stack = [9, 6], cs_frame = 9\<rparr>
         \<lparr>stacks = (\<lambda>_. [])(1 := [5], 3 := [8, 7, 6]), fresh = 5\<rparr>
         (EWrap 4 ''even more context'' (ERoot 2 False ''additional context''
            (EForeign \<lparr>f_ident = 0, f_comparable = True, f_text = ''global error'',
               f_code = None, f_kvs = None\<rparr>
               (Some (ERoot 0 True ''global error'' ENil 1 CodeUnknown None)))
            3 CodeInternal None) 8 CodeInternal None)
         ''way too much context''))
       (ERoot 0 True ''global error'' ENil 1 CodeUnknown None)
     = [9, 5]"
  by (simp add: Wrap_def wrap_def Cause.simps)

section \<open>Rendering a chain\<close>

lemma Code_String_internal: "Code_String CodeInternal = ''internal''"
  by (simp add: Code_String_def defaultErrorCodes_def code_defs)

lemma Code_String_unknown: "Code_String CodeUnknown = ''unknown''"
  by (simp add: Code_String_def defaultErrorCodes_def code_defs)

lemma Code_String_zero: "Code_String 0 = ''unknown''"
  by (simp add: Code_String_def defaultErrorCodes_def code_defs)

text \<open>
  C3. \<^verbatim>\<open>New("root error")\<close>, wrapped with "additional context" and then with "even more
  context", renders without trace as the literal string of the spec; whatever the captures,
  the store and the symbol table are, and whether \<^verbatim>\<open>isGlobal\<close> takes the root for a global
  one or not.
\<close>

theorem ToString_root_wrapped_twice:
  "ToString pr
     (snd (Wrap cs2 (snd (Wrap cs1 (snd (New isGlobal cs0 s ''root error''))
                           (fst (New isGlobal cs0 s ''root error'')) ''additional context''))
             (fst (Wrap cs1 (snd (New isGlobal cs0 s ''root error''))
                           (fst (New isGlobal cs0 s ''root error'')) ''additional context''))
             ''even more context''))
     (fst (Wrap cs2 (snd (Wrap cs1 (snd (New isGlobal cs0 s ''root error''))
                           (fst (New isGlobal cs0 s ''root error'')) ''additional context''))
             (fst (Wrap cs1 (snd (New isGlobal cs0 s ''root error''))
                           (fst (New isGlobal cs0 s ''root error'')) ''additional context''))
             ''even more context''))
     False
   = ''code(internal) even more context: code(internal) additional context: code(unknown) root error''"
proof (cases "isGlobal (cs_stack cs0)")
  case True
  then show ?thesis
    by (simp add: New_def Wrap_def wrap_def Let_def Cause.simps ToString_def ToCustomString_def
        Unpack_def zero_UnpackedError_def NewDefaultStringFormat_def ErrRoot_formatStr_def
        ErrLink_formatStr_def kvs_len_def Code_String_internal Code_String_unknown
        DEFAULT_ERROR_CODE_NEW_def DEFAULT_ERROR_CODE_WRAP_def root_shows_def)
next
  case False
  then show ?thesis
    by (simp add: New_def Wrap_def wrap_def Let_def Cause.simps ToString_def ToCustomString_def
        Unpack_def zero_UnpackedError_def NewDefaultStringFormat_def ErrRoot_formatStr_def
        ErrLink_formatStr_def kvs_len_def Code_String_internal Code_String_unknown
        DEFAULT_ERROR_CODE_NEW_def DEFAULT_ERROR_CODE_WRAP_def root_shows_def)
qed

theorem ToString_root_wrapped_twice_witness:
  "ToString \<lparr>resolve = (\<lambda>p. \<lparr>Name = ''main.f'', File = ''main.go'', Line = int p\<rparr>),
             sprint_error = (\<lambda>t e. [])\<rparr>
     (snd (Wrap \<lparr>cs_stack = [9, 6], cs_frame = 9\<rparr>
        (snd (Wrap \<lparr>cs_stack = [8, 6], cs_frame = 8\<rparr>
           (snd (New (\<lambda>st. False) \<lparr>cs_stack = [7, 6], cs_frame = 7\<rparr>
              \<lparr>stacks = (\<lambda>_. []), fresh = 0\<rparr> ''root error''))
           (fst (New (\<lambda>st. False) \<lparr>cs_stack = [7, 6], cs_frame = 7\<rparr>
              \<lparr>stacks = (\<lambda>_. []), fresh = 0\<rparr> ''root error'')) ''additional context''))
        (fst (Wrap \<lparr>cs_stack = [8, 6], cs_frame = 8\<rparr>
           (snd (New (\<lambda>st. False) \<lparr>cs_stack = [7, 6], cs_frame = 7\<rparr>
              \<lparr>stacks = (\<lambda>_. []), fresh = 0\<rparr> ''root error''))
           (fst (New (\<lambda>st. False) \<lparr>cs_stack = [7, 6], cs_frame = 7\<rparr>
              \<lparr>stacks = (\<lambda>_. []), fresh = 0\<rparr> ''root error'')) ''additional context''))
        ''even more context''))
     (fst (Wrap \<lparr>cs_stack = [9, 6], cs_frame = 9\<rparr>
        (snd (Wrap \<lparr>cs_stack = [8, 6], cs_frame = 8\<rparr>
           (snd (New (\<lambda>st. False) \<lparr>cs_stack = [7, 6], cs_frame = 7\<rparr>
              \<lparr>stacks = (\<lambda>_. []), fresh = 0\<rparr> ''root error''))
           (fst (New (\<lambda>st. False) \<lparr>cs_stack = [7, 6], cs_frame = 7\<rparr>
              \<lparr>stacks = (\<lambda>_. []), fresh = 0\<rparr> ''root error'')) ''additional context''))
        (fst (Wrap \<lparr>cs_stack = [8, 6], cs_frame = 8\<rparr>
           (snd (New (\<lambda>st. False) \<lparr>cs_stack = [7, 6], cs_frame = 7\<rparr>
              \<lparr>stacks = (\<lambda>_. []), fresh = 0\<rparr> ''root error''))
           (fst (New (\<lambda>st. False) \<lparr>cs_stack = [7, 6], cs_frame = 7\<rparr>
              \<lparr>stacks = (\<lambda>_. []), fresh = 0\<rparr> ''root error'')) ''additional context''))
        ''even more context''))
     False
   = ''code(internal) even more context: code(internal) additional context: code(unknown) root error''"
  by (rule ToString_root_wrapped_twice)

text \<open>
  C9 at the nil error. \<^verbatim>\<open>Unpack(nil)\<close> is the zero value, whose code is \<open>0\<close> and not
  \<^verbatim>\<open>DEFAULT_ERROR_CODE_NEW\<close>, so the test of \<^verbatim>\<open>ErrRoot.formatStr\<close> for an error that is
  not to be printed fails: \<^verbatim>\<open>ToString(nil, false)\<close> is the text \<^verbatim>\<open>code(unknown)\<close> followed by a
  space, and \<^verbatim>\<open>ToCustomString(nil, format)\<close> is the empty string for no format. The JSON
  renderers return the map with no keys, as the claim says.
\<close>

theorem ToString_nil_is_not_empty:
  "ToString pr s ENil False = ''code(unknown) ''
   \<and> ToCustomString pr s ENil format \<noteq> []
   \<and> ToJSON pr s ENil withTrace = []
   \<and> ToCustomJSON pr s ENil jformat = []"
proof (intro conjI)
  show "ToString pr s ENil False = ''code(unknown) ''"
    by (simp add: ToString_def ToCustomString_def Unpack_def zero_UnpackedError_def
        NewDefaultStringFormat_def ErrRoot_formatStr_def kvs_len_def Code_String_zero
        DEFAULT_ERROR_CODE_NEW_def CodeUnknown_def root_shows_def)
next
  have "ErrRoot_formatStr (ErrRoot zero_UnpackedError) format \<noteq> []"
    by (simp add: zero_UnpackedError_def ErrRoot_formatStr_def kvs_len_def
        DEFAULT_ERROR_CODE_NEW_def CodeUnknown_def)
  then show "ToCustomString pr s ENil format \<noteq> []"
    by (simp add: ToCustomString_def Unpack_def Let_def)
next
  show "ToJSON pr s ENil withTrace = []"
    by (simp add: ToJSON_def ToCustomJSON.simps Unpack_def zero_UnpackedError_def)
next
  show "ToCustomJSON pr s ENil jformat = []"
    by (simp add: ToCustomJSON.simps Unpack_def zero_UnpackedError_def)
qed

theorem ToString_nil_is_not_empty_witness:
  "ToString \<lparr>resolve = (\<lambda>p. \<lparr>Name = ''main.f'', File = ''main.go'', Line = int p\<rparr>),
             sprint_error = (\<lambda>t e. [])\<rparr> \<lparr>stacks = (\<lambda>_. []), fresh = 0\<rparr> ENil False
     = ''code(unknown) ''"
  using ToString_nil_is_not_empty
    [of "\<lparr>resolve = (\<lambda>p. \<lparr>Name = ''main.f'', File = ''main.go'', Line = int p\<rparr>),
          sprint_error = (\<lambda>t e. [])\<rparr>" "\<lparr>stacks = (\<lambda>_. []), fresh = 0\<rparr>"]
  by (rule conjunct1)

section \<open>Nil, Join and Unwrap\<close>

lemma errors_Join_nil_iff: "fst (errors_Join s errs) = ENil \<longleftrightarrow> (\<forall>e\<in>set errs. e = ENil)"
  by (auto simp: errors_Join_def filter_empty_conv)

lemma wrap_nil_iff: "fst (wrap cs s e msg code) = ENil \<longleftrightarrow> e = ENil"
  by (cases e) (simp_all add: wrap_def Let_def)

lemma Join_nil_iff: "fst (Join cs s errs) = ENil \<longleftrightarrow> (\<forall>e\<in>set errs. e = ENil)"
  by (simp add: Join_def Let_def wrap_nil_iff errors_Join_nil_iff)

text \<open>
  C4. Every entry point that builds or changes an error returns nil for the nil error and
  leaves the store as it was; \<^verbatim>\<open>Join\<close> returns nil when every argument is nil and an
  error when one is not.
\<close>

theorem nil_is_absorbed:
  "Wrap cs s ENil msg = (ENil, s)
   \<and> Wrapf cs s ENil msg = (ENil, s)
   \<and> PassThrough sprintf cs s ENil msg = Inr (ENil, s)
   \<and> PassThroughf cs s ENil msg = Inr (ENil, s)
   \<and> With cs s ENil fs = Inr (ENil, s)
   \<and> WithCode cs s ENil code = Inr (ENil, s)
   \<and> WithProperty cs s ENil key v = Inr (ENil, s)
   \<and> ((\<forall>e\<in>set errs. e = ENil) \<longrightarrow> Join cs s errs = (ENil, s))
   \<and> ((\<exists>e\<in>set errs. e \<noteq> ENil) \<longrightarrow> fst (Join cs s errs) \<noteq> ENil)"
proof (intro conjI impI)
  show "With cs s ENil fs = Inr (ENil, s)" by (simp add: With.simps)
next
  show "WithCode cs s ENil code = Inr (ENil, s)" by (simp add: WithCode_def With.simps)
next
  show "WithProperty cs s ENil key v = Inr (ENil, s)"
    by (simp add: WithProperty_def With.simps)
next
  assume "\<forall>e\<in>set errs. e = ENil"
  then have "filter (\<lambda>e. e \<noteq> ENil) errs = []" by (simp add: filter_empty_conv)
  then show "Join cs s errs = (ENil, s)" by (simp add: Join_def errors_Join_def)
next
  assume "\<exists>e\<in>set errs. e \<noteq> ENil"
  then show "fst (Join cs s errs) \<noteq> ENil" by (simp add: Join_nil_iff)
qed (simp_all add: Wrap_def Wrapf_def wrap_def PassThrough_def PassThroughf_def)

theorem nil_is_absorbed_witness:
  "Wrap \<lparr>cs_stack = [8, 6], cs_frame = 8\<rparr> \<lparr>stacks = (\<lambda>_. []), fresh = 0\<rparr> ENil
       ''additional context'' = (ENil, \<lparr>stacks = (\<lambda>_. []), fresh = 0\<rparr>)
   \<and> With \<lparr>cs_stack = [8, 6], cs_frame = 8\<rparr> \<lparr>stacks = (\<lambda>_. []), fresh = 0\<rparr> ENil
       [Codes CodeCanceled, KVs ''key'' (AnyString ''value'')]
       = Inr (ENil, \<lparr>stacks = (\<lambda>_. []), fresh = 0\<rparr>)
   \<and> Join \<lparr>cs_stack = [8, 6], cs_frame = 8\<rparr> \<lparr>stacks = (\<lambda>_. []), fresh = 0\<rparr> [ENil, ENil]
       = (ENil, \<lparr>stacks = (\<lambda>_. []), fresh = 0\<rparr>)
   \<and> fst (Join \<lparr>cs_stack = [8, 6], cs_frame = 8\<rparr> \<lparr>stacks = (\<lambda>_. []), fresh = 0\<rparr>
       [ENil, EForeign \<lparr>f_ident = 0, f_comparable = True, f_text = ''external error'',
          f_code = None, f_kvs = None\<rparr> None]) \<noteq> ENil"
  using nil_is_absorbed [where cs = "\<lparr>cs_stack = [8, 6], cs_frame = 8\<rparr>"
      and s = "\<lparr>stacks = (\<lambda>_. []), fresh = 0\<rparr>" and msg = "''additional context''"
      and fs = "[Codes CodeCanceled, KVs ''key'' (AnyString ''value'')]"
      and errs = "[ENil, ENil]"]
    nil_is_absorbed [where cs = "\<lparr>cs_stack = [8, 6], cs_frame = 8\<rparr>"
      and s = "\<lparr>stacks = (\<lambda>_. []), fresh = 0\<rparr>"
      and errs = "[ENil, EForeign \<lparr>f_ident = 0, f_comparable = True,
          f_text = ''external error'', f_code = None, f_kvs = None\<rparr> None]"]
  by simp

text \<open>
  C10. With an argument that is not nil, \<^verbatim>\<open>Join\<close> returns a new root: its message is
  \<^verbatim>\<open>join error\<close>, its code the unknown code (which is not the code that \<^verbatim>\<open>Wrap\<close>
  gives), and below it the aggregate of the arguments that are not nil, in their order.
\<close>

theorem Join_returns_unknown_root:
  assumes "\<exists>e\<in>set errs. e \<noteq> ENil"
  shows "fst (Join cs s errs)
         = ERoot (Suc (fresh s)) False ''join error''
             (EJoin (fresh s) (filter (\<lambda>e. e \<noteq> ENil) errs)) (Suc (Suc (fresh s)))
             CodeUnknown None
       \<and> GetCode (fst (Join cs s errs)) = CodeUnknown
       \<and> GetCode (fst (Join cs s errs)) \<noteq> DEFAULT_ERROR_CODE_WRAP"
proof -
  from assms have "filter (\<lambda>e. e \<noteq> ENil) errs \<noteq> []" by (simp add: filter_empty_conv)
  then show ?thesis
    by (simp add: Join_def errors_Join_def wrap_def Let_def code_defs)
qed

theorem Join_returns_unknown_root_witness:
  "fst (Join \<lparr>cs_stack = [8, 6], cs_frame = 8\<rparr> \<lparr>stacks = (\<lambda>_. []), fresh = 2\<rparr>
       [EForeign \<lparr>f_ident = 0, f_comparable = True, f_text = ''err1'',
          f_code = None, f_kvs = None\<rparr> None,
        ENil,
        ERoot 0 False ''root error'' ENil 1 CodeUnknown None])
   = ERoot 3 False ''join error''
       (EJoin 2 [EForeign \<lparr>f_ident = 0, f_comparable = True, f_text = ''err1'',
                   f_code = None, f_kvs = None\<rparr> None,
                 ERoot 0 False ''root error'' ENil 1 CodeUnknown None])
       4 CodeUnknown None"
  using Join_returns_unknown_root [of
      "[EForeign \<lparr>f_ident = 0, f_comparable = True, f_text = ''err1'',
          f_code = None, f_kvs = None\<rparr> None,
        ENil,
        ERoot 0 False ''root error'' ENil 1 CodeUnknown None]"
      "\<lparr>cs_stack = [8, 6], cs_frame = 8\<rparr>" "\<lparr>stacks = (\<lambda>_. []), fresh = 2\<rparr>"]
  by simp

text \<open>
  C7, as the code has it. \<^verbatim>\<open>Unwrap\<close> calls the \<^verbatim>\<open>Unwrap() error\<close> method of whatever has
  one: a link gives its next node, a root its foreign error, a foreign error with that
  method the result of the method; a foreign error without it, an aggregate (whose method
  returns a slice) and nil give nil.
\<close>

theorem Unwrap_by_dynamic_type:
  "Unwrap (EWrap a m e f c k) = e
   \<and> Unwrap (ERoot a' g m' x sp c' k') = x
   \<and> Unwrap (EForeign fo (Some e')) = e'
   \<and> Unwrap (EForeign fo None) = ENil
   \<and> Unwrap (EJoin j es) = ENil
   \<and> Unwrap ENil = ENil"
  by simp

text \<open>
  C7 as stated fails: a foreign error that wraps another one (the \<^verbatim>\<open>fmt.Errorf("%w", ...)\<close>
  of the tests) unwraps to the error it wraps, not to nil.
\<close>

theorem Unwrap_foreign_counterexample:
  "Unwrap (EForeign \<lparr>f_ident = 1, f_comparable = True, f_text = ''external error'',
             f_code = None, f_kvs = None\<rparr>
           (Some (EForeign \<lparr>f_ident = 0, f_comparable = True, f_text = ''external error'',
                    f_code = None, f_kvs = None\<rparr> None)))
   \<noteq> ENil"
  by simp

theorem Unwrap_by_dynamic_type_witness:
  "Unwrap (EWrap 2 ''additional context'' (ERoot 0 False ''root error'' ENil 1 CodeUnknown None)
      8 CodeInternal None) = ERoot 0 False ''root error'' ENil 1 CodeUnknown None
   \<and> Unwrap (ERoot 0 False ''root error'' ENil 1 CodeUnknown None) = ENil
   \<and> Unwrap (EJoin 2 [ERoot 0 False ''root error'' ENil 1 CodeUnknown None]) = ENil"
  using Unwrap_by_dynamic_type [of 2 "''additional context''"
      "ERoot 0 False ''root error'' ENil 1 CodeUnknown None" 8 CodeInternal None
      0 False "''root error''" ENil 1 CodeUnknown None _ _ 2
      "[ERoot 0 False ''root error'' ENil 1 CodeUnknown None]"]
  by blast

section \<open>PassThrough\<close>

lemma With_node:
  "is_node n \<Longrightarrow> With cs s n fs =
     (case node_WithFields n fs of Inl p \<Rightarrow> Inl p | Inr n' \<Rightarrow> Inr (n', s))"
  by (cases n) (simp_all add: With.simps)

lemma WithProperty_node:
  "is_node n \<Longrightarrow> WithProperty cs s n k v = Inr (node_WithProperty n k v, s)"
  by (simp add: WithProperty_def With_node node_WithField_def KVs_def KVType_def CodeType_def)

lemma WithCode_node: "is_node n \<Longrightarrow> WithCode cs s n c = Inr (node_WithCode n c, s)"
  by (simp add: WithCode_def With_node node_WithField_def Codes_def CodeType_def)

lemma is_node_WithProperty: "is_node (node_WithProperty n k v) = is_node n"
  by (cases n) simp_all

lemma is_node_WithCode: "is_node (node_WithCode n c) = is_node n"
  by (cases n) simp_all

lemma is_node_put_all: "is_node (put_all kvs n) = is_node n"
  by (induction kvs n rule: put_all.induct) (simp_all add: is_node_WithProperty)

lemma pass_properties_node:
  "is_node n \<Longrightarrow> pass_properties cs kvs (n, s) = Inr (put_all kvs n, s)"
  by (induction kvs n rule: put_all.induct)
     (simp_all add: WithProperty_node is_node_put_all)

lemma GetCode_WithProperty: "GetCode (node_WithProperty n k v) = GetCode n"
  by (cases n) simp_all

lemma GetCode_put_all: "GetCode (put_all kvs n) = GetCode n"
  by (induction kvs n rule: put_all.induct) (simp_all add: GetCode_WithProperty)

lemma GetCode_WithCode: "is_node n \<Longrightarrow> GetCode (node_WithCode n c) = c"
  by (cases n) simp_all

lemma GetKVs_WithCode: "GetKVs (node_WithCode n c) = GetKVs n"
  by (cases n) simp_all

lemma lookup_WithProperty:
  "is_node n \<Longrightarrow> kv_lookup (GetKVs (node_WithProperty n k v)) key
     = (if key = k then Some v else kv_lookup (GetKVs n) key)"
  by (cases n) (auto simp: kv_lookup_def set_kv_def update_conv' split: option.splits)

lemma lookup_put_all:
  "is_node n \<Longrightarrow> kv_lookup (GetKVs (put_all kvs n)) key
     = (case map_of kvs key of Some v \<Rightarrow> Some v | None \<Rightarrow> kv_lookup (GetKVs n) key)"
  by (induction kvs n rule: put_all.induct)
     (simp_all add: lookup_WithProperty is_node_put_all)

lemma wrap_node:
  "e \<noteq> ENil \<Longrightarrow> is_node (fst (wrap cs s e msg code))
     \<and> GetCode (fst (wrap cs s e msg code)) = code
     \<and> GetKVs (fst (wrap cs s e msg code)) = Some []"
  by (cases e) (simp_all add: wrap_def Let_def)

text \<open>
  C5, as the code has it. For an error that is not nil, \<^verbatim>\<open>PassThrough\<close> returns without
  a panic; the code of the result is the code of the source, unless that code is the unknown
  code: then the result keeps the internal code that the wrap gave it. The properties of the
  result are the properties of the source, key by key.
\<close>

theorem PassThrough_code_and_properties:
  assumes "e \<noteq> ENil"
  shows "\<exists>res s'. PassThrough sprintf cs s e msg = Inr (res, s')
           \<and> GetCode res = (if GetCode e = CodeUnknown then CodeInternal else GetCode e)
           \<and> (\<forall>key. kv_lookup (GetKVs res) key = kv_lookup (GetKVs e) key)"
proof -
  define w where "w = wrap cs s e (sprintf msg) DEFAULT_ERROR_CODE_WRAP"
  define n where
    "n = (if GetCode e \<noteq> CodeUnknown then node_WithCode (fst w) (GetCode e) else fst w)"
  from wrap_node [OF assms] have w: "is_node (fst w)"
    "GetCode (fst w) = DEFAULT_ERROR_CODE_WRAP" "GetKVs (fst w) = Some []"
    unfolding w_def by blast+
  then have n: "is_node n" "GetKVs n = Some []"
    "GetCode n = (if GetCode e = CodeUnknown then CodeInternal else GetCode e)"
    by (simp_all add: n_def is_node_WithCode GetKVs_WithCode GetCode_WithCode code_defs)
  have coded: "(if GetCode e \<noteq> CodeUnknown then WithCode cs (snd w) (fst w) (GetCode e)
                else Inr w) = Inr (n, snd w)"
    using w(1) by (simp add: n_def WithCode_node)
  have "PassThrough sprintf cs s e msg =
      (case (if GetCode e \<noteq> CodeUnknown then WithCode cs (snd w) (fst w) (GetCode e)
             else Inr w) of
         Inl p \<Rightarrow> Inl p
       | Inr es \<Rightarrow>
           (case GetKVs e of None \<Rightarrow> Inr es | Some kvs \<Rightarrow> pass_properties cs kvs es))"
    using assms by (simp add: PassThrough_def PassThroughf_def Let_def w_def)
  then have pass: "PassThrough sprintf cs s e msg =
      (case GetKVs e of None \<Rightarrow> Inr (n, snd w) | Some kvs \<Rightarrow> pass_properties cs kvs (n, snd w))"
    unfolding coded by simp
  show ?thesis
  proof (cases "GetKVs e")
    case None
    with pass have "PassThrough sprintf cs s e msg = Inr (n, snd w)" by simp
    moreover from n(2) None have "\<forall>key. kv_lookup (GetKVs n) key = kv_lookup (GetKVs e) key"
      by (simp add: kv_lookup_def)
    ultimately show ?thesis using n(3) by blast
  next
    case (Some kvs)
    with pass n(1) have "PassThrough sprintf cs s e msg = Inr (put_all kvs n, snd w)"
      by (simp add: pass_properties_node)
    moreover have "GetCode (put_all kvs n)
        = (if GetCode e = CodeUnknown then CodeInternal else GetCode e)"
      using n(3) by (simp only: GetCode_put_all)
    moreover have "\<forall>key. kv_lookup (GetKVs (put_all kvs n)) key = kv_lookup (GetKVs e) key"
    proof
      fix key
      have "kv_lookup (GetKVs n) key = None" using n(2) by (simp add: kv_lookup_def)
      moreover have "kv_lookup (GetKVs e) key = map_of kvs key"
        using Some by (simp add: kv_lookup_def)
      ultimately show "kv_lookup (GetKVs (put_all kvs n)) key = kv_lookup (GetKVs e) key"
        by (simp add: lookup_put_all [OF n(1)] split: option.splits)
    qed
    ultimately show ?thesis by blast
  qed
qed

theorem PassThrough_code_and_properties_witness:
  "ERoot 0 False ''root error'' ENil 1 CodeInvalidArgument (Some [(''key1'', AnyString ''val1'')])
     \<noteq> ENil
   \<and> (\<exists>res s'. PassThrough (\<lambda>format. format) \<lparr>cs_stack = [8, 6], cs_frame = 8\<rparr>
          \<lparr>stacks = (\<lambda>_. [])(1 := [7, 6]), fresh = 2\<rparr>
          (ERoot 0 False ''root error'' ENil 1 CodeInvalidArgument
             (Some [(''key1'', AnyString ''val1'')])) ''additional context'' = Inr (res, s')
        \<and> GetCode res
            = (if GetCode (ERoot 0 False ''root error'' ENil 1 CodeInvalidArgument
                     (Some [(''key1'', AnyString ''val1'')])) = CodeUnknown
               then CodeInternal
               else GetCode (ERoot 0 False ''root error'' ENil 1 CodeInvalidArgument
                     (Some [(''key1'', AnyString ''val1'')])))
        \<and> (\<forall>key. kv_lookup (GetKVs res) key
              = kv_lookup (GetKVs (ERoot 0 False ''root error'' ENil 1 CodeInvalidArgument
                     (Some [(''key1'', AnyString ''val1'')]))) key))"
proof -
  have ne: "ERoot 0 False ''root error'' ENil 1 CodeInvalidArgument
      (Some [(''key1'', AnyString ''val1'')]) \<noteq> ENil"
    by simp
  from ne PassThrough_code_and_properties [OF ne] show ?thesis by (rule conjI)
qed

text \<open>
  C5 as stated fails at a source whose code is the unknown code, the code of every error
  that \<^verbatim>\<open>New\<close> returns: the result has the internal code.
\<close>

theorem PassThrough_unknown_code_counterexample:
  "PassThrough (\<lambda>format. format) \<lparr>cs_stack = [8, 6], cs_frame = 8\<rparr>
       \<lparr>stacks = (\<lambda>_. [])(1 := [7, 6]), fresh = 2\<rparr>
       (ERoot 0 False ''root error'' ENil 1 CodeUnknown None) ''additional context''
     = Inr (EWrap 2 ''additional context'' (ERoot 0 False ''root error'' ENil 1 CodeUnknown None)
              8 CodeInternal None,
            \<lparr>stacks = (\<lambda>_. [])(1 := [8, 7, 6]), fresh = 3\<rparr>)
   \<and> GetCode (EWrap 2 ''additional context''
         (ERoot 0 False ''root error'' ENil 1 CodeUnknown None) 8 CodeInternal None)
     \<noteq> GetCode (ERoot 0 False ''root error'' ENil 1 CodeUnknown None)"
  by (simp add: PassThrough_def PassThroughf_def wrap_def code_defs)

section \<open>Is over a joined error\<close>

lemma go_eq_node_target: "is_node t \<Longrightarrow> \<exists>b. go_eq fm e t = Inr b"
  by (cases t; cases e) auto

lemma go_eq_node_source: "is_node e \<Longrightarrow> \<exists>b. go_eq fm e t = Inr b"
  by (cases t; cases e) auto

lemma go_eq_node_refl: "is_node t \<Longrightarrow> go_eq fm t t = Inr True"
  by (cases t) simp_all

lemma or_next_simps:
  "or_next (Inr True) b = Inr True" "or_next (Inr False) b = b" "or_next (Inl p) b = Inl p"
  by (simp_all add: or_next_def)

lemma or_next_returns:
  "a = Inr x \<Longrightarrow> b = Inr y \<Longrightarrow> or_next a b = Inr (x \<or> y)"
  by (cases x) (simp_all add: or_next_def)

lemma Is_returns_at_node:
  "is_node t \<Longrightarrow> \<exists>b. Is fm e t = Inr b"
  "is_node t \<Longrightarrow> \<exists>b. Is_members fm es t = Inr b"
proof (induction fm e t and fm es t rule: Is_Is_members.induct)
qed (auto simp: or_next_def split: sum.splits bool.splits err.splits option.splits
       dest: go_eq_node_target)

lemma Is_refl:
  "t \<noteq> ENil \<Longrightarrow> isComparable t \<Longrightarrow> go_eq fm t t = Inr True \<Longrightarrow> Is fm t t = Inr True"
  by (cases t) (simp_all add: or_next_def)

lemma Is_EWrap:
  "t \<noteq> ENil \<Longrightarrow> Is fm (EWrap a m e f c k) t =
     or_next (if isComparable t then go_eq fm (EWrap a m e f c k) t else Inr False)
       (or_next (Inr (node_matches fm False m c k t))
          (if e = ENil then Inr False else Is fm e t))"
  by (cases t) simp_all

lemma Is_join_root:
  "t \<noteq> ENil \<Longrightarrow> Is fm (ERoot a g m (EJoin j es) sp c k) t =
     or_next (if isComparable t then go_eq fm (ERoot a g m (EJoin j es) sp c k) t else Inr False)
       (or_next (Is_members fm es t) (Is fm (EJoin j es) t))"
  by (cases t) simp_all

lemma Is_over_members:
  assumes "t \<noteq> ENil" and "Is_members fm es t = Inr True"
  shows "Is fm (EWrap l msg (ERoot a g m (EJoin j es) sp c k) f c' k') t = Inr True"
proof -
  obtain b1 where b1: "go_eq fm (EWrap l msg (ERoot a g m (EJoin j es) sp c k) f c' k') t = Inr b1"
    using go_eq_node_source [of "EWrap l msg (ERoot a g m (EJoin j es) sp c k) f c' k'" fm t]
    by auto
  obtain b2 where b2: "go_eq fm (ERoot a g m (EJoin j es) sp c k) t = Inr b2"
    using go_eq_node_source [of "ERoot a g m (EJoin j es) sp c k" fm t] by auto
  have "Is fm (ERoot a g m (EJoin j es) sp c k) t = Inr True"
    using assms b2 by (simp add: Is_join_root or_next_def split: bool.splits)
  then show ?thesis
    using assms(1) b1 by (simp add: Is_EWrap or_next_def split: bool.splits)
qed

lemma Wrap_Join_pair:
  "x \<noteq> ENil \<Longrightarrow> r \<noteq> ENil \<Longrightarrow>
   fst (Wrap cw (snd (Join cj s [x, r])) (fst (Join cj s [x, r])) msg)
   = EWrap (Suc (Suc (Suc (fresh s)))) msg
       (ERoot (Suc (fresh s)) False ''join error'' (EJoin (fresh s) [x, r])
          (Suc (Suc (fresh s))) CodeUnknown None)
       (cs_frame cw) CodeInternal None"
  by (simp add: Join_def errors_Join_def wrap_def Wrap_def Let_def code_defs)

text \<open>
  C6, as the code has it. In \<^verbatim>\<open>Wrap(Join(externalErr, rootErr), "ctx")\<close> with both members
  not nil, \<^verbatim>\<open>Is\<close> against \<open>rootErr\<close> returns true for every root or link \<open>rootErr\<close>, whatever
  the other member is; \<^verbatim>\<open>Is\<close> against \<open>externalErr\<close> returns true when the dynamic type of
  \<open>externalErr\<close> is comparable and \<^verbatim>\<open>externalErr == externalErr\<close> is true, as it is of every
  pointer.
\<close>

theorem Is_finds_self_equal_join_members:
  assumes "x \<noteq> ENil" and "r \<noteq> ENil"
  shows "(is_node r \<longrightarrow>
            Is fm (fst (Wrap cw (snd (Join cj s [x, r])) (fst (Join cj s [x, r])) ''ctx'')) r
              = Inr True)
       \<and> (isComparable x \<and> go_eq fm x x = Inr True \<longrightarrow>
            Is fm (fst (Wrap cw (snd (Join cj s [x, r])) (fst (Join cj s [x, r])) ''ctx'')) x
              = Inr True)"
proof (intro conjI impI)
  assume node: "is_node r"
  then have "isComparable r" by (cases r) simp_all
  with assms(2) node have "Is fm r r = Inr True" by (simp add: Is_refl go_eq_node_refl)
  moreover obtain b where "Is fm x r = Inr b" using Is_returns_at_node(1) [OF node] by blast
  ultimately have "Is_members fm [x, r] r = Inr True"
    by (simp add: or_next_def split: bool.splits)
  with assms show
    "Is fm (fst (Wrap cw (snd (Join cj s [x, r])) (fst (Join cj s [x, r])) ''ctx'')) r = Inr True"
    by (simp add: Wrap_Join_pair Is_over_members)
next
  assume "isComparable x \<and> go_eq fm x x = Inr True"
  with assms(1) have "Is fm x x = Inr True" by (simp add: Is_refl)
  then have "Is_members fm [x, r] x = Inr True" by (simp add: or_next_def)
  with assms show
    "Is fm (fst (Wrap cw (snd (Join cj s [x, r])) (fst (Join cj s [x, r])) ''ctx'')) x = Inr True"
    by (simp add: Wrap_Join_pair Is_over_members)
qed

theorem Is_finds_self_equal_join_members_witness:
  "EForeign \<lparr>f_ident = 0, f_comparable = True, f_text = ''external error'',
      f_code = None, f_kvs = None\<rparr> None \<noteq> ENil
   \<and> ERoot 0 False ''root error'' ENil 1 CodeUnknown None \<noteq> ENil
   \<and> is_node (ERoot 0 False ''root error'' ENil 1 CodeUnknown None)
   \<and> isComparable (EForeign \<lparr>f_ident = 0, f_comparable = True, f_text = ''external error'',
        f_code = None, f_kvs = None\<rparr> None)
   \<and> go_eq \<lparr>foreign_Is = (\<lambda>e t. None), join_Error = (\<lambda>es. []),
             foreign_eq = (\<lambda>e t. Inr (e = t))\<rparr>
        (EForeign \<lparr>f_ident = 0, f_comparable = True, f_text = ''external error'',
           f_code = None, f_kvs = None\<rparr> None)
        (EForeign \<lparr>f_ident = 0, f_comparable = True, f_text = ''external error'',
           f_code = None, f_kvs = None\<rparr> None) = Inr True
   \<and> Is \<lparr>foreign_Is = (\<lambda>e t. None), join_Error = (\<lambda>es. []),
          foreign_eq = (\<lambda>e t. Inr (e = t))\<rparr>
       (fst (Wrap \<lparr>cs_stack = [9, 6], cs_frame = 9\<rparr>
          (snd (Join \<lparr>cs_stack = [8, 6], cs_frame = 8\<rparr>
             \<lparr>stacks = (\<lambda>_. [])(1 := [7, 6]), fresh = 2\<rparr>
             [EForeign \<lparr>f_ident = 0, f_comparable = True, f_text = ''external error'',
                f_code = None, f_kvs = None\<rparr> None,
              ERoot 0 False ''root error'' ENil 1 CodeUnknown None]))
          (fst (Join \<lparr>cs_stack = [8, 6], cs_frame = 8\<rparr>
             \<lparr>stacks = (\<lambda>_. [])(1 := [7, 6]), fresh = 2\<rparr>
             [EForeign \<lparr>f_ident = 0, f_comparable = True, f_text = ''external error'',
                f_code = None, f_kvs = None\<rparr> None,
              ERoot 0 False ''root error'' ENil 1 CodeUnknown None]))
          ''ctx''))
       (ERoot 0 False ''root error'' ENil 1 CodeUnknown None) = Inr True
   \<and> Is \<lparr>foreign_Is = (\<lambda>e t. None), join_Error = (\<lambda>es. []),
          foreign_eq = (\<lambda>e t. Inr (e = t))\<rparr>
       (fst (Wrap \<lparr>cs_stack = [9, 6], cs_frame = 9\<rparr>
          (snd (Join \<lparr>cs_stack = [8, 6], cs_frame = 8\<rparr>
             \<lparr>stacks = (\<lambda>_. [])(1 := [7, 6]), fresh = 2\<rparr>
             [EForeign \<lparr>f_ident = 0, f_comparable = True, f_text = ''external error'',
                f_code = None, f_kvs = None\<rparr> None,
              ERoot 0 False ''root error'' ENil 1 CodeUnknown None]))
          (fst (Join \<lparr>cs_stack = [8, 6], cs_frame = 8\<rparr>
             \<lparr>stacks = (\<lambda>_. [])(1 := [7, 6]), fresh = 2\<rparr>
             [EForeign \<lparr>f_ident = 0, f_comparable = True, f_text = ''external error'',
                f_code = None, f_kvs = None\<rparr> None,
              ERoot 0 False ''root error'' ENil 1 CodeUnknown None]))
          ''ctx''))
       (EForeign \<lparr>f_ident = 0, f_comparable = True, f_text = ''external error'',
          f_code = None, f_kvs = None\<rparr> None) = Inr True"
proof -
  have x: "EForeign \<lparr>f_ident = 0, f_comparable = True, f_text = ''external error'',
      f_code = None, f_kvs = None\<rparr> None \<noteq> ENil"
    and r: "ERoot 0 False ''root error'' ENil 1 CodeUnknown None \<noteq> ENil"
    by simp_all
  have nr: "is_node (ERoot 0 False ''root error'' ENil 1 CodeUnknown None)"
    and cx: "isComparable (EForeign \<lparr>f_ident = 0, f_comparable = True,
      f_text = ''external error'', f_code = None, f_kvs = None\<rparr> None)"
    by simp_all
  have eq: "go_eq \<lparr>foreign_Is = (\<lambda>e t. None), join_Error = (\<lambda>es. []),
             foreign_eq = (\<lambda>e t. Inr (e = t))\<rparr>
        (EForeign \<lparr>f_ident = 0, f_comparable = True, f_text = ''external error'',
           f_code = None, f_kvs = None\<rparr> None)
        (EForeign \<lparr>f_ident = 0, f_comparable = True, f_text = ''external error'',
           f_code = None, f_kvs = None\<rparr> None) = Inr True"
    by simp
  from Is_finds_self_equal_join_members [OF x r] x r nr cx eq show ?thesis by blast
qed

text \<open>
  C6 as stated fails for a foreign member whose dynamic type is not comparable (a slice
  type with an \<^verbatim>\<open>Error\<close> method, say) and which has no \<^verbatim>\<open>Is\<close> method: the test
  \<^verbatim>\<open>isComparable && err == target\<close> is skipped and no message matches.
\<close>

theorem Is_uncomparable_member_counterexample:
  "Is \<lparr>foreign_Is = (\<lambda>e t. None), join_Error = (\<lambda>es. []),
        foreign_eq = (\<lambda>e t. Inr (e = t))\<rparr>
      (fst (Wrap \<lparr>cs_stack = [9, 6], cs_frame = 9\<rparr>
         (snd (Join \<lparr>cs_stack = [8, 6], cs_frame = 8\<rparr>
            \<lparr>stacks = (\<lambda>_. [])(1 := [7, 6]), fresh = 2\<rparr>
            [EForeign \<lparr>f_ident = 0, f_comparable = False, f_text = ''external error'',
               f_code = None, f_kvs = None\<rparr> None,
             ERoot 0 False ''root error'' ENil 1 CodeUnknown None]))
         (fst (Join \<lparr>cs_stack = [8, 6], cs_frame = 8\<rparr>
            \<lparr>stacks = (\<lambda>_. [])(1 := [7, 6]), fresh = 2\<rparr>
            [EForeign \<lparr>f_ident = 0, f_comparable = False, f_text = ''external error'',
               f_code = None, f_kvs = None\<rparr> None,
             ERoot 0 False ''root error'' ENil 1 CodeUnknown None]))
         ''ctx''))
      (EForeign \<lparr>f_ident = 0, f_comparable = False, f_text = ''external error'',
         f_code = None, f_kvs = None\<rparr> None)
   = Inr False"
  by (simp add: Wrap_Join_pair or_next_def)

section \<open>The root key of the JSON form\<close>






end
